theory Spec2Isabelle
  imports Main "HOL-Library.Word"
begin

unbundle bit_operations_syntax

section \<open>Machine integers and display-list instructions\<close>

type_synonym u8 = "8 word"
type_synonym u16 = "16 word"
type_synonym i16 = "16 word"
type_synonym u32 = "32 word"

text \<open>
  The instruction macros (\<open>COLOR_RGB\<close>, \<open>VERTEX2F\<close>, ...) come from the GPU definitions
  header, which \<open>EVE_CoDl.h\<close> only includes. A display-list word is therefore recorded
  as the macro's name with the operands the header passes to it; \<open>OR_bits\<close> records a
  word that the header builds by or-ing further bits onto a macro's result.
  An \<open>int16_t\<close> operand is kept as \<open>I16\<close> (read with \<open>sint\<close>).
\<close>

datatype dl_arg = U8 u8 | U16 u16 | I16 i16 | U32 u32 | Flag bool

datatype dl_instr = Instr string "dl_arg list" | OR_bits dl_instr u32

definition DISPLAY :: dl_instr where
  "DISPLAY = Instr ''DISPLAY'' []"
definition VERTEX2F :: "i16 \<Rightarrow> i16 \<Rightarrow> dl_instr" where
  "VERTEX2F x y = Instr ''VERTEX2F'' [I16 x, I16 y]"
definition VERTEX2II :: "u16 \<Rightarrow> u16 \<Rightarrow> u8 \<Rightarrow> u8 \<Rightarrow> dl_instr" where
  "VERTEX2II x y handle cell = Instr ''VERTEX2II'' [U16 x, U16 y, U8 handle, U8 cell]"
definition BITMAP_SOURCE :: "u32 \<Rightarrow> dl_instr" where
  "BITMAP_SOURCE addr = Instr ''BITMAP_SOURCE'' [U32 addr]"
definition BITMAP_SOURCE2 :: "bool \<Rightarrow> u32 \<Rightarrow> dl_instr" where
  "BITMAP_SOURCE2 flash addr = Instr ''BITMAP_SOURCE2'' [Flag flash, U32 addr]"
definition CLEAR_COLOR_RGB :: "u8 \<Rightarrow> u8 \<Rightarrow> u8 \<Rightarrow> dl_instr" where
  "CLEAR_COLOR_RGB r g b = Instr ''CLEAR_COLOR_RGB'' [U8 r, U8 g, U8 b]"
definition CLEAR_COLOR_A :: "u8 \<Rightarrow> dl_instr" where
  "CLEAR_COLOR_A alpha = Instr ''CLEAR_COLOR_A'' [U8 alpha]"
definition TAG :: "u8 \<Rightarrow> dl_instr" where
  "TAG s = Instr ''TAG'' [U8 s]"
definition COLOR_RGB :: "u8 \<Rightarrow> u8 \<Rightarrow> u8 \<Rightarrow> dl_instr" where
  "COLOR_RGB r g b = Instr ''COLOR_RGB'' [U8 r, U8 g, U8 b]"
definition COLOR_A :: "u8 \<Rightarrow> dl_instr" where
  "COLOR_A alpha = Instr ''COLOR_A'' [U8 alpha]"
definition BITMAP_HANDLE :: "u8 \<Rightarrow> dl_instr" where
  "BITMAP_HANDLE handle = Instr ''BITMAP_HANDLE'' [U8 handle]"
definition CELL :: "u8 \<Rightarrow> dl_instr" where
  "CELL cell = Instr ''CELL'' [U8 cell]"
definition BITMAP_LAYOUT_H :: "u16 \<Rightarrow> u16 \<Rightarrow> dl_instr" where
  "BITMAP_LAYOUT_H linestride height = Instr ''BITMAP_LAYOUT_H'' [U16 linestride, U16 height]"
definition BITMAP_LAYOUT :: "u8 \<Rightarrow> u16 \<Rightarrow> u16 \<Rightarrow> dl_instr" where
  "BITMAP_LAYOUT format linestride height =
     Instr ''BITMAP_LAYOUT'' [U8 format, U16 linestride, U16 height]"
definition BITMAP_SIZE_H :: "u16 \<Rightarrow> u16 \<Rightarrow> dl_instr" where
  "BITMAP_SIZE_H width height = Instr ''BITMAP_SIZE_H'' [U16 width, U16 height]"
definition BITMAP_SIZE :: "u8 \<Rightarrow> u8 \<Rightarrow> u8 \<Rightarrow> u16 \<Rightarrow> u16 \<Rightarrow> dl_instr" where
  "BITMAP_SIZE flt wrapx wrapy width height =
     Instr ''BITMAP_SIZE'' [U8 flt, U8 wrapx, U8 wrapy, U16 width, U16 height]"
definition ALPHA_FUNC :: "u8 \<Rightarrow> u8 \<Rightarrow> dl_instr" where
  "ALPHA_FUNC func ref = Instr ''ALPHA_FUNC'' [U8 func, U8 ref]"
definition STENCIL_FUNC :: "u8 \<Rightarrow> u8 \<Rightarrow> u8 \<Rightarrow> dl_instr" where
  "STENCIL_FUNC func ref msk = Instr ''STENCIL_FUNC'' [U8 func, U8 ref, U8 msk]"
definition BLEND_FUNC :: "u8 \<Rightarrow> u8 \<Rightarrow> dl_instr" where
  "BLEND_FUNC src dst = Instr ''BLEND_FUNC'' [U8 src, U8 dst]"
definition STENCIL_OP :: "u8 \<Rightarrow> u8 \<Rightarrow> dl_instr" where
  "STENCIL_OP sfail spass = Instr ''STENCIL_OP'' [U8 sfail, U8 spass]"
definition POINT_SIZE :: "i16 \<Rightarrow> dl_instr" where
  "POINT_SIZE sz = Instr ''POINT_SIZE'' [I16 sz]"
definition LINE_WIDTH :: "i16 \<Rightarrow> dl_instr" where
  "LINE_WIDTH width = Instr ''LINE_WIDTH'' [I16 width]"
definition CLEAR_STENCIL :: "u8 \<Rightarrow> dl_instr" where
  "CLEAR_STENCIL s = Instr ''CLEAR_STENCIL'' [U8 s]"
definition CLEAR_TAG :: "u8 \<Rightarrow> dl_instr" where
  "CLEAR_TAG s = Instr ''CLEAR_TAG'' [U8 s]"
definition STENCIL_MASK :: "u8 \<Rightarrow> dl_instr" where
  "STENCIL_MASK msk = Instr ''STENCIL_MASK'' [U8 msk]"
definition TAG_MASK :: "bool \<Rightarrow> dl_instr" where
  "TAG_MASK msk = Instr ''TAG_MASK'' [Flag msk]"
definition BITMAP_TRANSFORM_A :: "u16 \<Rightarrow> dl_instr" where
  "BITMAP_TRANSFORM_A v = Instr ''BITMAP_TRANSFORM_A'' [U16 v]"
definition BITMAP_TRANSFORM_A_EXT :: "bool \<Rightarrow> u16 \<Rightarrow> dl_instr" where
  "BITMAP_TRANSFORM_A_EXT p v = Instr ''BITMAP_TRANSFORM_A_EXT'' [Flag p, U16 v]"
definition BITMAP_TRANSFORM_B :: "u16 \<Rightarrow> dl_instr" where
  "BITMAP_TRANSFORM_B v = Instr ''BITMAP_TRANSFORM_B'' [U16 v]"
definition BITMAP_TRANSFORM_B_EXT :: "bool \<Rightarrow> u16 \<Rightarrow> dl_instr" where
  "BITMAP_TRANSFORM_B_EXT p v = Instr ''BITMAP_TRANSFORM_B_EXT'' [Flag p, U16 v]"
definition BITMAP_TRANSFORM_C :: "u32 \<Rightarrow> dl_instr" where
  "BITMAP_TRANSFORM_C v = Instr ''BITMAP_TRANSFORM_C'' [U32 v]"
definition BITMAP_TRANSFORM_D :: "u16 \<Rightarrow> dl_instr" where
  "BITMAP_TRANSFORM_D v = Instr ''BITMAP_TRANSFORM_D'' [U16 v]"
definition BITMAP_TRANSFORM_D_EXT :: "bool \<Rightarrow> u16 \<Rightarrow> dl_instr" where
  "BITMAP_TRANSFORM_D_EXT p v = Instr ''BITMAP_TRANSFORM_D_EXT'' [Flag p, U16 v]"
definition BITMAP_TRANSFORM_E :: "u16 \<Rightarrow> dl_instr" where
  "BITMAP_TRANSFORM_E v = Instr ''BITMAP_TRANSFORM_E'' [U16 v]"
definition BITMAP_TRANSFORM_E_EXT :: "bool \<Rightarrow> u16 \<Rightarrow> dl_instr" where
  "BITMAP_TRANSFORM_E_EXT p v = Instr ''BITMAP_TRANSFORM_E_EXT'' [Flag p, U16 v]"
definition BITMAP_TRANSFORM_F :: "u32 \<Rightarrow> dl_instr" where
  "BITMAP_TRANSFORM_F v = Instr ''BITMAP_TRANSFORM_F'' [U32 v]"
definition SCISSOR_XY :: "u16 \<Rightarrow> u16 \<Rightarrow> dl_instr" where
  "SCISSOR_XY x y = Instr ''SCISSOR_XY'' [U16 x, U16 y]"
definition SCISSOR_SIZE :: "u16 \<Rightarrow> u16 \<Rightarrow> dl_instr" where
  "SCISSOR_SIZE width height = Instr ''SCISSOR_SIZE'' [U16 width, U16 height]"
definition CALL :: "u16 \<Rightarrow> dl_instr" where
  "CALL dest = Instr ''CALL'' [U16 dest]"
definition JUMP :: "u16 \<Rightarrow> dl_instr" where
  "JUMP dest = Instr ''JUMP'' [U16 dest]"
definition BEGIN :: "u8 \<Rightarrow> dl_instr" where
  "BEGIN prim = Instr ''BEGIN'' [U8 prim]"
definition COLOR_MASK :: "bool \<Rightarrow> bool \<Rightarrow> bool \<Rightarrow> bool \<Rightarrow> dl_instr" where
  "COLOR_MASK r g b a = Instr ''COLOR_MASK'' [Flag r, Flag g, Flag b, Flag a]"
definition END :: dl_instr where
  "END = Instr ''END'' []"
definition SAVE_CONTEXT :: dl_instr where
  "SAVE_CONTEXT = Instr ''SAVE_CONTEXT'' []"
definition RESTORE_CONTEXT :: dl_instr where
  "RESTORE_CONTEXT = Instr ''RESTORE_CONTEXT'' []"
definition RETURN :: dl_instr where
  "RETURN = Instr ''RETURN'' []"
definition MACRO :: "u16 \<Rightarrow> dl_instr" where
  "MACRO m = Instr ''MACRO'' [U16 m]"
definition CLEAR :: "bool \<Rightarrow> bool \<Rightarrow> bool \<Rightarrow> dl_instr" where
  "CLEAR c s t = Instr ''CLEAR'' [Flag c, Flag s, Flag t]"
definition VERTEX_FORMAT :: "u8 \<Rightarrow> dl_instr" where
  "VERTEX_FORMAT frac = Instr ''VERTEX_FORMAT'' [U8 frac]"
definition PALETTE_SOURCE :: "u32 \<Rightarrow> dl_instr" where
  "PALETTE_SOURCE addr = Instr ''PALETTE_SOURCE'' [U32 addr]"
definition VERTEX_TRANSLATE_X :: "i16 \<Rightarrow> dl_instr" where
  "VERTEX_TRANSLATE_X x = Instr ''VERTEX_TRANSLATE_X'' [I16 x]"
definition VERTEX_TRANSLATE_Y :: "i16 \<Rightarrow> dl_instr" where
  "VERTEX_TRANSLATE_Y y = Instr ''VERTEX_TRANSLATE_Y'' [I16 y]"

section \<open>Build configuration and host context\<close>

text \<open>
  The preprocessor switches of \<open>EVE_Config\<close> and the constants of the GPU definitions
  header that decide control flow in \<open>EVE_CoDl.h\<close>. None of them is defined in the
  header itself, so they are parameters of every function below.
  \<open>EVE_DL_STATE_STACK_BITS\<close> gives the capacity of the context stack as a power of two.
\<close>

record EVE_Config =
  EVE_DL_OPTIMIZE :: bool
  EVE_DL_CACHE_SCISSOR :: bool
  EVE_DL_END_PRIMITIVE :: bool
  EVE_DL_STATE_STACK_BITS :: nat
  LINE_STRIP :: u8
  EDGE_STRIP_R :: u8
  EDGE_STRIP_L :: u8
  EDGE_STRIP_A :: u8
  EDGE_STRIP_B :: u8
  SRC_ALPHA :: u8
  ONE_MINUS_SRC_ALPHA :: u8

text \<open>
  Modelled from the spec: the macros \<open>EVE_DL_STATE_STACK_SIZE\<close> and
  \<open>EVE_DL_STATE_STACK_MASK\<close> are not defined in the header. The capacity is a power of
  two and the index arithmetic uses masking, so the mask is the capacity minus one.
\<close>

definition EVE_DL_STATE_STACK_SIZE :: "EVE_Config \<Rightarrow> nat" where
  "EVE_DL_STATE_STACK_SIZE cfg = 2 ^ EVE_DL_STATE_STACK_BITS cfg"

definition EVE_DL_STATE_STACK_MASK :: "EVE_Config \<Rightarrow> int" where
  "EVE_DL_STATE_STACK_MASK cfg = 2 ^ EVE_DL_STATE_STACK_BITS cfg - 1"

definition EVE_VERTEX2F_MIN :: int where
  "EVE_VERTEX2F_MIN = - 16384"

definition EVE_VERTEX2F_MAX :: int where
  "EVE_VERTEX2F_MAX = 16383"

text \<open>
  Modelled from the spec: the struct \<open>EVE_HalDlState\<close> is declared in the HAL header.
  The fields are the ones \<open>EVE_CoDl.h\<close> reads and writes, with the widths of the
  spec's data model (which are also the types of the setters' arguments).
  \<open>BitmapTransform\<close> is true when a transform other than the identity may be set.
\<close>

record EVE_HalDlState =
  ColorRGB :: u32
  ColorA :: u8
  Handle :: u8
  Cell :: u8
  PointSize :: i16
  LineWidth :: i16
  VertexFormat :: u8
  PaletteSource :: u32
  BitmapTransform :: bool
  ScissorX :: u16
  ScissorY :: u16
  ScissorWidth :: u16
  ScissorHeight :: u16

text \<open>
  The part of \<open>EVE_HalContext\<close> that the header touches: the array of snapshots,
  the index of the active one (a \<open>uint8_t\<close>, as \<open>nextState\<close> is), the active
  primitive, and the words handed to \<open>EVE_CoCmd_dl\<close> so far, oldest first.
\<close>

record EVE_HalContext =
  DlState :: "EVE_HalDlState list"
  DlStateIndex :: u8
  DlPrimitive :: u8
  CmdDl :: "dl_instr list"

text \<open>
  Modelled from the spec: \<open>EVE_CoCmd_dl\<close> belongs to the coprocessor command layer;
  it appends one word to the outgoing stream, in call order.
\<close>

definition EVE_CoCmd_dl :: "dl_instr \<Rightarrow> EVE_HalContext \<Rightarrow> EVE_HalContext" where
  "EVE_CoCmd_dl w phost = phost\<lparr>CmdDl := CmdDl phost @ [w]\<rparr>"

text \<open>
  Modelled from the spec: the macro \<open>EVE_DL_STATE\<close> is the snapshot at the current
  index, \<open>phost->DlState[phost->DlStateIndex]\<close>; \<open>EVE_DL_STATE_set\<close> is an
  assignment through it.
\<close>

definition EVE_DL_STATE :: "EVE_HalContext \<Rightarrow> EVE_HalDlState" where
  "EVE_DL_STATE phost = DlState phost ! unat (DlStateIndex phost)"

definition EVE_DL_STATE_set :: "EVE_HalDlState \<Rightarrow> EVE_HalContext \<Rightarrow> EVE_HalContext" where
  "EVE_DL_STATE_set s phost =
     phost\<lparr>DlState := (DlState phost)[unat (DlStateIndex phost) := s]\<rparr>"

text \<open>
  The array accesses of the header are in bounds exactly when the array has the
  configured capacity and the index is below it.
\<close>

definition dl_state_in_bounds :: "EVE_Config \<Rightarrow> EVE_HalContext \<Rightarrow> bool" where
  "dl_state_in_bounds cfg phost \<longleftrightarrow>
     length (DlState phost) = EVE_DL_STATE_STACK_SIZE cfg \<and>
     unat (DlStateIndex phost) < EVE_DL_STATE_STACK_SIZE cfg"

section \<open>The functions of \<open>EVE_CoDl.h\<close>\<close>

text \<open>
  Every function takes the build configuration, its C arguments and the host context,
  and returns the context after the call. A block under \<open>#if EVE_DL_OPTIMIZE\<close> is a
  test of the switch.
\<close>

definition EVE_CoDl_display :: "EVE_Config \<Rightarrow> EVE_HalContext \<Rightarrow> EVE_HalContext" where
  "EVE_CoDl_display cfg phost = EVE_CoCmd_dl DISPLAY phost"

definition EVE_CoDl_vertex2f :: "EVE_Config \<Rightarrow> i16 \<Rightarrow> i16 \<Rightarrow> EVE_HalContext \<Rightarrow> EVE_HalContext" where
  "EVE_CoDl_vertex2f cfg x y phost = EVE_CoCmd_dl (VERTEX2F x y) phost"

definition EVE_CoDl_vertex2ii ::
  "EVE_Config \<Rightarrow> u16 \<Rightarrow> u16 \<Rightarrow> u8 \<Rightarrow> u8 \<Rightarrow> EVE_HalContext \<Rightarrow> EVE_HalContext" where
  "EVE_CoDl_vertex2ii cfg x y handle cell phost = EVE_CoCmd_dl (VERTEX2II x y handle cell) phost"

definition EVE_CoDl_bitmapSource :: "EVE_Config \<Rightarrow> u32 \<Rightarrow> EVE_HalContext \<Rightarrow> EVE_HalContext" where
  "EVE_CoDl_bitmapSource cfg addr phost = EVE_CoCmd_dl (BITMAP_SOURCE addr) phost"

definition EVE_CoDl_bitmapSource_ex ::
  "EVE_Config \<Rightarrow> u32 \<Rightarrow> bool \<Rightarrow> EVE_HalContext \<Rightarrow> EVE_HalContext" where
  "EVE_CoDl_bitmapSource_ex cfg addr flash phost = EVE_CoCmd_dl (BITMAP_SOURCE2 flash addr) phost"

definition EVE_CoDl_clearColorRgb_ex :: "EVE_Config \<Rightarrow> u32 \<Rightarrow> EVE_HalContext \<Rightarrow> EVE_HalContext" where
  "EVE_CoDl_clearColorRgb_ex cfg c phost =
     EVE_CoCmd_dl (OR_bits (CLEAR_COLOR_RGB 0 0 0) (c AND 0xFFFFFF)) phost"

definition EVE_CoDl_clearColorRgb ::
  "EVE_Config \<Rightarrow> u8 \<Rightarrow> u8 \<Rightarrow> u8 \<Rightarrow> EVE_HalContext \<Rightarrow> EVE_HalContext" where
  "EVE_CoDl_clearColorRgb cfg r g b phost = EVE_CoCmd_dl (CLEAR_COLOR_RGB r g b) phost"

definition EVE_CoDl_clearColorA :: "EVE_Config \<Rightarrow> u8 \<Rightarrow> EVE_HalContext \<Rightarrow> EVE_HalContext" where
  "EVE_CoDl_clearColorA cfg alpha phost = EVE_CoCmd_dl (CLEAR_COLOR_A alpha) phost"

text \<open>The argument \<open>c >> 24\<close> is converted to the \<open>uint8_t\<close> parameter.\<close>

definition EVE_CoDl_clearColorArgb_ex :: "EVE_Config \<Rightarrow> u32 \<Rightarrow> EVE_HalContext \<Rightarrow> EVE_HalContext" where
  "EVE_CoDl_clearColorArgb_ex cfg c phost =
     EVE_CoDl_clearColorA cfg (ucast (drop_bit 24 c)) (EVE_CoDl_clearColorRgb_ex cfg c phost)"

definition EVE_CoDl_tag :: "EVE_Config \<Rightarrow> u8 \<Rightarrow> EVE_HalContext \<Rightarrow> EVE_HalContext" where
  "EVE_CoDl_tag cfg s phost = EVE_CoCmd_dl (TAG s) phost"

definition EVE_CoDl_colorRgb_ex :: "EVE_Config \<Rightarrow> u32 \<Rightarrow> EVE_HalContext \<Rightarrow> EVE_HalContext" where
  "EVE_CoDl_colorRgb_ex cfg c phost =
     (let rgb = c AND 0xFFFFFF in
      if EVE_DL_OPTIMIZE cfg then
        (if rgb \<noteq> ColorRGB (EVE_DL_STATE phost) then
           (let phost1 = EVE_CoCmd_dl (OR_bits (COLOR_RGB 0 0 0) (c AND 0xFFFFFF)) phost in
            EVE_DL_STATE_set ((EVE_DL_STATE phost1)\<lparr>ColorRGB := rgb\<rparr>) phost1)
         else phost)
      else EVE_CoCmd_dl (OR_bits (COLOR_RGB 0 0 0) (c AND 0xFFFFFF)) phost)"

definition EVE_CoDl_colorRgb ::
  "EVE_Config \<Rightarrow> u8 \<Rightarrow> u8 \<Rightarrow> u8 \<Rightarrow> EVE_HalContext \<Rightarrow> EVE_HalContext" where
  "EVE_CoDl_colorRgb cfg r g b phost =
     (let rgb = push_bit 16 (ucast r :: u32) OR push_bit 8 (ucast g :: u32) OR (ucast b :: u32) in
      EVE_CoDl_colorRgb_ex cfg rgb phost)"

definition EVE_CoDl_colorA :: "EVE_Config \<Rightarrow> u8 \<Rightarrow> EVE_HalContext \<Rightarrow> EVE_HalContext" where
  "EVE_CoDl_colorA cfg alpha phost =
     (if EVE_DL_OPTIMIZE cfg then
        (if alpha \<noteq> ColorA (EVE_DL_STATE phost) then
           (let phost1 = EVE_CoCmd_dl (COLOR_A alpha) phost in
            EVE_DL_STATE_set ((EVE_DL_STATE phost1)\<lparr>ColorA := alpha\<rparr>) phost1)
         else phost)
      else EVE_CoCmd_dl (COLOR_A alpha) phost)"

definition EVE_CoDl_colorArgb_ex :: "EVE_Config \<Rightarrow> u32 \<Rightarrow> EVE_HalContext \<Rightarrow> EVE_HalContext" where
  "EVE_CoDl_colorArgb_ex cfg c phost =
     EVE_CoDl_colorA cfg (ucast (drop_bit 24 c)) (EVE_CoDl_colorRgb_ex cfg c phost)"

definition EVE_CoDl_bitmapHandle :: "EVE_Config \<Rightarrow> u8 \<Rightarrow> EVE_HalContext \<Rightarrow> EVE_HalContext" where
  "EVE_CoDl_bitmapHandle cfg handle phost =
     (if EVE_DL_OPTIMIZE cfg then
        (if handle \<noteq> Handle (EVE_DL_STATE phost) then
           (let phost1 = EVE_CoCmd_dl (BITMAP_HANDLE handle) phost in
            EVE_DL_STATE_set ((EVE_DL_STATE phost1)\<lparr>Handle := handle\<rparr>) phost1)
         else phost)
      else EVE_CoCmd_dl (BITMAP_HANDLE handle) phost)"

definition EVE_CoDl_cell :: "EVE_Config \<Rightarrow> u8 \<Rightarrow> EVE_HalContext \<Rightarrow> EVE_HalContext" where
  "EVE_CoDl_cell cfg cell phost =
     (if EVE_DL_OPTIMIZE cfg then
        (if cell \<noteq> Cell (EVE_DL_STATE phost) then
           (let phost1 = EVE_CoCmd_dl (CELL cell) phost in
            EVE_DL_STATE_set ((EVE_DL_STATE phost1)\<lparr>Cell := cell\<rparr>) phost1)
         else phost)
      else EVE_CoCmd_dl (CELL cell) phost)"

text \<open>
  The \<open>uint16_t\<close> operands are promoted to \<open>int\<close> before the shift; the result is
  non-negative and fits 16 bits.
\<close>

definition EVE_CoDl_bitmapLayout ::
  "EVE_Config \<Rightarrow> u8 \<Rightarrow> u16 \<Rightarrow> u16 \<Rightarrow> EVE_HalContext \<Rightarrow> EVE_HalContext" where
  "EVE_CoDl_bitmapLayout cfg format linestride height phost =
     (let phost1 = EVE_CoCmd_dl (BITMAP_LAYOUT_H (drop_bit 10 linestride) (drop_bit 9 height)) phost
      in EVE_CoCmd_dl (BITMAP_LAYOUT format linestride height) phost1)"

definition EVE_CoDl_bitmapSize ::
  "EVE_Config \<Rightarrow> u8 \<Rightarrow> u8 \<Rightarrow> u8 \<Rightarrow> u16 \<Rightarrow> u16 \<Rightarrow> EVE_HalContext \<Rightarrow> EVE_HalContext" where
  "EVE_CoDl_bitmapSize cfg flt wrapx wrapy width height phost =
     (let phost1 = EVE_CoCmd_dl (BITMAP_SIZE_H (drop_bit 9 width) (drop_bit 9 height)) phost
      in EVE_CoCmd_dl (BITMAP_SIZE flt wrapx wrapy width height) phost1)"

definition EVE_CoDl_alphaFunc :: "EVE_Config \<Rightarrow> u8 \<Rightarrow> u8 \<Rightarrow> EVE_HalContext \<Rightarrow> EVE_HalContext" where
  "EVE_CoDl_alphaFunc cfg func ref phost = EVE_CoCmd_dl (ALPHA_FUNC func ref) phost"

definition EVE_CoDl_stencilFunc ::
  "EVE_Config \<Rightarrow> u8 \<Rightarrow> u8 \<Rightarrow> u8 \<Rightarrow> EVE_HalContext \<Rightarrow> EVE_HalContext" where
  "EVE_CoDl_stencilFunc cfg func ref msk phost = EVE_CoCmd_dl (STENCIL_FUNC func ref msk) phost"

definition EVE_CoDl_blendFunc :: "EVE_Config \<Rightarrow> u8 \<Rightarrow> u8 \<Rightarrow> EVE_HalContext \<Rightarrow> EVE_HalContext" where
  "EVE_CoDl_blendFunc cfg src dst phost = EVE_CoCmd_dl (BLEND_FUNC src dst) phost"

definition EVE_CoDl_blendFunc_default :: "EVE_Config \<Rightarrow> EVE_HalContext \<Rightarrow> EVE_HalContext" where
  "EVE_CoDl_blendFunc_default cfg phost =
     EVE_CoDl_blendFunc cfg (SRC_ALPHA cfg) (ONE_MINUS_SRC_ALPHA cfg) phost"

definition EVE_CoDl_stencilOp :: "EVE_Config \<Rightarrow> u8 \<Rightarrow> u8 \<Rightarrow> EVE_HalContext \<Rightarrow> EVE_HalContext" where
  "EVE_CoDl_stencilOp cfg sfail spass phost = EVE_CoCmd_dl (STENCIL_OP sfail spass) phost"

definition EVE_CoDl_pointSize :: "EVE_Config \<Rightarrow> i16 \<Rightarrow> EVE_HalContext \<Rightarrow> EVE_HalContext" where
  "EVE_CoDl_pointSize cfg sz phost =
     (if EVE_DL_OPTIMIZE cfg then
        (if sz \<noteq> PointSize (EVE_DL_STATE phost) then
           (let phost1 = EVE_CoCmd_dl (POINT_SIZE sz) phost in
            EVE_DL_STATE_set ((EVE_DL_STATE phost1)\<lparr>PointSize := sz\<rparr>) phost1)
         else phost)
      else EVE_CoCmd_dl (POINT_SIZE sz) phost)"

definition EVE_CoDl_lineWidth :: "EVE_Config \<Rightarrow> i16 \<Rightarrow> EVE_HalContext \<Rightarrow> EVE_HalContext" where
  "EVE_CoDl_lineWidth cfg width phost =
     (if EVE_DL_OPTIMIZE cfg then
        (if width \<noteq> LineWidth (EVE_DL_STATE phost) then
           (let phost1 = EVE_CoCmd_dl (LINE_WIDTH width) phost in
            EVE_DL_STATE_set ((EVE_DL_STATE phost1)\<lparr>LineWidth := width\<rparr>) phost1)
         else phost)
      else EVE_CoCmd_dl (LINE_WIDTH width) phost)"

definition EVE_CoDl_clearStencil :: "EVE_Config \<Rightarrow> u8 \<Rightarrow> EVE_HalContext \<Rightarrow> EVE_HalContext" where
  "EVE_CoDl_clearStencil cfg s phost = EVE_CoCmd_dl (CLEAR_STENCIL s) phost"

definition EVE_CoDl_clearTag :: "EVE_Config \<Rightarrow> u8 \<Rightarrow> EVE_HalContext \<Rightarrow> EVE_HalContext" where
  "EVE_CoDl_clearTag cfg s phost = EVE_CoCmd_dl (CLEAR_TAG s) phost"

definition EVE_CoDl_stencilMask :: "EVE_Config \<Rightarrow> u8 \<Rightarrow> EVE_HalContext \<Rightarrow> EVE_HalContext" where
  "EVE_CoDl_stencilMask cfg msk phost = EVE_CoCmd_dl (STENCIL_MASK msk) phost"

definition EVE_CoDl_tagMask :: "EVE_Config \<Rightarrow> bool \<Rightarrow> EVE_HalContext \<Rightarrow> EVE_HalContext" where
  "EVE_CoDl_tagMask cfg msk phost = EVE_CoCmd_dl (TAG_MASK msk) phost"

definition EVE_CoDl_bitmapTransformA ::
  "EVE_Config \<Rightarrow> u16 \<Rightarrow> EVE_HalContext \<Rightarrow> EVE_HalContext" where
  "EVE_CoDl_bitmapTransformA cfg v phost =
     (let phost1 = EVE_CoCmd_dl (BITMAP_TRANSFORM_A v) phost in
      if EVE_DL_OPTIMIZE cfg
      then EVE_DL_STATE_set ((EVE_DL_STATE phost1)\<lparr>BitmapTransform := True\<rparr>) phost1
      else phost1)"

definition EVE_CoDl_bitmapTransformA_ex ::
  "EVE_Config \<Rightarrow> bool \<Rightarrow> u16 \<Rightarrow> EVE_HalContext \<Rightarrow> EVE_HalContext" where
  "EVE_CoDl_bitmapTransformA_ex cfg p v phost =
     (let phost1 = EVE_CoCmd_dl (BITMAP_TRANSFORM_A_EXT p v) phost in
      if EVE_DL_OPTIMIZE cfg
      then EVE_DL_STATE_set ((EVE_DL_STATE phost1)\<lparr>BitmapTransform := True\<rparr>) phost1
      else phost1)"

definition EVE_CoDl_bitmapTransformB ::
  "EVE_Config \<Rightarrow> u16 \<Rightarrow> EVE_HalContext \<Rightarrow> EVE_HalContext" where
  "EVE_CoDl_bitmapTransformB cfg v phost =
     (let phost1 = EVE_CoCmd_dl (BITMAP_TRANSFORM_B v) phost in
      if EVE_DL_OPTIMIZE cfg
      then EVE_DL_STATE_set ((EVE_DL_STATE phost1)\<lparr>BitmapTransform := True\<rparr>) phost1
      else phost1)"

definition EVE_CoDl_bitmapTransformB_ex ::
  "EVE_Config \<Rightarrow> bool \<Rightarrow> u16 \<Rightarrow> EVE_HalContext \<Rightarrow> EVE_HalContext" where
  "EVE_CoDl_bitmapTransformB_ex cfg p v phost =
     (let phost1 = EVE_CoCmd_dl (BITMAP_TRANSFORM_B_EXT p v) phost in
      if EVE_DL_OPTIMIZE cfg
      then EVE_DL_STATE_set ((EVE_DL_STATE phost1)\<lparr>BitmapTransform := True\<rparr>) phost1
      else phost1)"

definition EVE_CoDl_bitmapTransformC ::
  "EVE_Config \<Rightarrow> u32 \<Rightarrow> EVE_HalContext \<Rightarrow> EVE_HalContext" where
  "EVE_CoDl_bitmapTransformC cfg v phost =
     (let phost1 = EVE_CoCmd_dl (BITMAP_TRANSFORM_C v) phost in
      if EVE_DL_OPTIMIZE cfg
      then EVE_DL_STATE_set ((EVE_DL_STATE phost1)\<lparr>BitmapTransform := True\<rparr>) phost1
      else phost1)"

definition EVE_CoDl_bitmapTransformD ::
  "EVE_Config \<Rightarrow> u16 \<Rightarrow> EVE_HalContext \<Rightarrow> EVE_HalContext" where
  "EVE_CoDl_bitmapTransformD cfg v phost =
     (let phost1 = EVE_CoCmd_dl (BITMAP_TRANSFORM_D v) phost in
      if EVE_DL_OPTIMIZE cfg
      then EVE_DL_STATE_set ((EVE_DL_STATE phost1)\<lparr>BitmapTransform := True\<rparr>) phost1
      else phost1)"

definition EVE_CoDl_bitmapTransformD_ex ::
  "EVE_Config \<Rightarrow> bool \<Rightarrow> u16 \<Rightarrow> EVE_HalContext \<Rightarrow> EVE_HalContext" where
  "EVE_CoDl_bitmapTransformD_ex cfg p v phost =
     (let phost1 = EVE_CoCmd_dl (BITMAP_TRANSFORM_D_EXT p v) phost in
      if EVE_DL_OPTIMIZE cfg
      then EVE_DL_STATE_set ((EVE_DL_STATE phost1)\<lparr>BitmapTransform := True\<rparr>) phost1
      else phost1)"

definition EVE_CoDl_bitmapTransformE ::
  "EVE_Config \<Rightarrow> u16 \<Rightarrow> EVE_HalContext \<Rightarrow> EVE_HalContext" where
  "EVE_CoDl_bitmapTransformE cfg v phost =
     (let phost1 = EVE_CoCmd_dl (BITMAP_TRANSFORM_E v) phost in
      if EVE_DL_OPTIMIZE cfg
      then EVE_DL_STATE_set ((EVE_DL_STATE phost1)\<lparr>BitmapTransform := True\<rparr>) phost1
      else phost1)"

definition EVE_CoDl_bitmapTransformE_ex ::
  "EVE_Config \<Rightarrow> bool \<Rightarrow> u16 \<Rightarrow> EVE_HalContext \<Rightarrow> EVE_HalContext" where
  "EVE_CoDl_bitmapTransformE_ex cfg p v phost =
     (let phost1 = EVE_CoCmd_dl (BITMAP_TRANSFORM_E_EXT p v) phost in
      if EVE_DL_OPTIMIZE cfg
      then EVE_DL_STATE_set ((EVE_DL_STATE phost1)\<lparr>BitmapTransform := True\<rparr>) phost1
      else phost1)"

definition EVE_CoDl_bitmapTransformF ::
  "EVE_Config \<Rightarrow> u32 \<Rightarrow> EVE_HalContext \<Rightarrow> EVE_HalContext" where
  "EVE_CoDl_bitmapTransformF cfg v phost =
     (let phost1 = EVE_CoCmd_dl (BITMAP_TRANSFORM_F v) phost in
      if EVE_DL_OPTIMIZE cfg
      then EVE_DL_STATE_set ((EVE_DL_STATE phost1)\<lparr>BitmapTransform := True\<rparr>) phost1
      else phost1)"

definition EVE_CoDl_bitmapTransform_ex ::
  "EVE_Config \<Rightarrow> bool \<Rightarrow> u16 \<Rightarrow> u16 \<Rightarrow> u32 \<Rightarrow> u16 \<Rightarrow> u16 \<Rightarrow> u32 \<Rightarrow> EVE_HalContext \<Rightarrow> EVE_HalContext" where
  "EVE_CoDl_bitmapTransform_ex cfg p a b c d e f phost =
     (let phost1 = EVE_CoDl_bitmapTransformA_ex cfg p a phost;
          phost2 = EVE_CoDl_bitmapTransformB_ex cfg p b phost1;
          phost3 = EVE_CoDl_bitmapTransformC cfg c phost2;
          phost4 = EVE_CoDl_bitmapTransformD_ex cfg p d phost3;
          phost5 = EVE_CoDl_bitmapTransformE_ex cfg p e phost4;
          phost6 = EVE_CoDl_bitmapTransformF cfg f phost5
      in if EVE_DL_OPTIMIZE cfg
         then EVE_DL_STATE_set ((EVE_DL_STATE phost6)\<lparr>BitmapTransform := True\<rparr>) phost6
         else phost6)"

text \<open>The six calls of \<open>EVE_CoDl_bitmapTransform_identity\<close>, in the order of the source.\<close>

definition bitmapTransform_identity_body :: "EVE_Config \<Rightarrow> EVE_HalContext \<Rightarrow> EVE_HalContext" where
  "bitmapTransform_identity_body cfg phost =
     (let phost1 = EVE_CoDl_bitmapTransformA_ex cfg False 256 phost;
          phost2 = EVE_CoDl_bitmapTransformB_ex cfg False 0 phost1;
          phost3 = EVE_CoDl_bitmapTransformC cfg 0 phost2;
          phost4 = EVE_CoDl_bitmapTransformD_ex cfg False 0 phost3;
          phost5 = EVE_CoDl_bitmapTransformE_ex cfg False 256 phost4
      in EVE_CoDl_bitmapTransformF cfg 0 phost5)"

definition EVE_CoDl_bitmapTransform_identity :: "EVE_Config \<Rightarrow> EVE_HalContext \<Rightarrow> EVE_HalContext" where
  "EVE_CoDl_bitmapTransform_identity cfg phost =
     (if EVE_DL_OPTIMIZE cfg then
        (if BitmapTransform (EVE_DL_STATE phost) then
           (let phost6 = bitmapTransform_identity_body cfg phost in
            EVE_DL_STATE_set ((EVE_DL_STATE phost6)\<lparr>BitmapTransform := False\<rparr>) phost6)
         else phost)
      else bitmapTransform_identity_body cfg phost)"

text \<open>
  The comparison is compiled in under \<open>EVE_DL_OPTIMIZE && EVE_DL_CACHE_SCISSOR\<close>, the
  two assignments under \<open>EVE_DL_CACHE_SCISSOR\<close> alone.
\<close>

definition EVE_CoDl_scissorXY :: "EVE_Config \<Rightarrow> u16 \<Rightarrow> u16 \<Rightarrow> EVE_HalContext \<Rightarrow> EVE_HalContext" where
  "EVE_CoDl_scissorXY cfg x y phost =
     (if (EVE_DL_OPTIMIZE cfg \<and> EVE_DL_CACHE_SCISSOR cfg) \<longrightarrow>
           (ScissorX (EVE_DL_STATE phost) \<noteq> x \<or> ScissorY (EVE_DL_STATE phost) \<noteq> y)
      then
        (let phost1 = EVE_CoCmd_dl (SCISSOR_XY x y) phost in
         if EVE_DL_CACHE_SCISSOR cfg
         then EVE_DL_STATE_set ((EVE_DL_STATE phost1)\<lparr>ScissorX := x, ScissorY := y\<rparr>) phost1
         else phost1)
      else phost)"

definition EVE_CoDl_scissorSize :: "EVE_Config \<Rightarrow> u16 \<Rightarrow> u16 \<Rightarrow> EVE_HalContext \<Rightarrow> EVE_HalContext" where
  "EVE_CoDl_scissorSize cfg width height phost =
     (if (EVE_DL_OPTIMIZE cfg \<and> EVE_DL_CACHE_SCISSOR cfg) \<longrightarrow>
           (ScissorWidth (EVE_DL_STATE phost) \<noteq> width \<or>
            ScissorHeight (EVE_DL_STATE phost) \<noteq> height)
      then
        (let phost1 = EVE_CoCmd_dl (SCISSOR_SIZE width height) phost in
         if EVE_DL_CACHE_SCISSOR cfg
         then EVE_DL_STATE_set
                ((EVE_DL_STATE phost1)\<lparr>ScissorWidth := width, ScissorHeight := height\<rparr>) phost1
         else phost1)
      else phost)"

definition EVE_CoDl_call :: "EVE_Config \<Rightarrow> u16 \<Rightarrow> EVE_HalContext \<Rightarrow> EVE_HalContext" where
  "EVE_CoDl_call cfg dest phost = EVE_CoCmd_dl (CALL dest) phost"

definition EVE_CoDl_jump :: "EVE_Config \<Rightarrow> u16 \<Rightarrow> EVE_HalContext \<Rightarrow> EVE_HalContext" where
  "EVE_CoDl_jump cfg dest phost = EVE_CoCmd_dl (JUMP dest) phost"

text \<open>The \<open>switch\<close> on the five strip primitives resets the local \<open>oldPrim\<close> only.\<close>

definition EVE_CoDl_begin :: "EVE_Config \<Rightarrow> u8 \<Rightarrow> EVE_HalContext \<Rightarrow> EVE_HalContext" where
  "EVE_CoDl_begin cfg prim phost =
     (if EVE_DL_OPTIMIZE cfg then
        (let oldPrim = DlPrimitive phost;
             oldPrim = (if oldPrim = LINE_STRIP cfg \<or> oldPrim = EDGE_STRIP_R cfg \<or>
                           oldPrim = EDGE_STRIP_L cfg \<or> oldPrim = EDGE_STRIP_A cfg \<or>
                           oldPrim = EDGE_STRIP_B cfg
                        then 0 else oldPrim)
         in if prim \<noteq> oldPrim
            then (EVE_CoCmd_dl (BEGIN prim) phost)\<lparr>DlPrimitive := prim\<rparr>
            else phost)
      else EVE_CoCmd_dl (BEGIN prim) phost)"

definition EVE_CoDl_colorMask ::
  "EVE_Config \<Rightarrow> bool \<Rightarrow> bool \<Rightarrow> bool \<Rightarrow> bool \<Rightarrow> EVE_HalContext \<Rightarrow> EVE_HalContext" where
  "EVE_CoDl_colorMask cfg r g b a phost = EVE_CoCmd_dl (COLOR_MASK r g b a) phost"

text \<open>
  The whole body is compiled in under \<open>EVE_DL_END_PRIMITIVE || !EVE_DL_OPTIMIZE\<close>;
  the test of the primitive and its reset are compiled in under \<open>EVE_DL_OPTIMIZE\<close>.
\<close>

definition EVE_CoDl_end :: "EVE_Config \<Rightarrow> EVE_HalContext \<Rightarrow> EVE_HalContext" where
  "EVE_CoDl_end cfg phost =
     (if EVE_DL_END_PRIMITIVE cfg \<or> \<not> EVE_DL_OPTIMIZE cfg then
        (if EVE_DL_OPTIMIZE cfg then
           (if DlPrimitive phost \<noteq> 0
            then (EVE_CoCmd_dl END phost)\<lparr>DlPrimitive := 0\<rparr>
            else phost)
         else EVE_CoCmd_dl END phost)
      else phost)"

text \<open>
  The index is promoted to \<open>int\<close>, incremented (or decremented), masked, and converted
  back to \<open>uint8_t\<close>.
\<close>

definition EVE_CoDl_saveContext :: "EVE_Config \<Rightarrow> EVE_HalContext \<Rightarrow> EVE_HalContext" where
  "EVE_CoDl_saveContext cfg phost =
     (let phost1 = EVE_CoCmd_dl SAVE_CONTEXT phost in
      if EVE_DL_OPTIMIZE cfg \<or> EVE_DL_CACHE_SCISSOR cfg then
        (let nextState = (word_of_int ((uint (DlStateIndex phost1) + 1)
                             AND EVE_DL_STATE_STACK_MASK cfg) :: u8);
             phost2 = phost1\<lparr>DlState := (DlState phost1)
                        [unat nextState := DlState phost1 ! unat (DlStateIndex phost1)]\<rparr>
         in phost2\<lparr>DlStateIndex := nextState\<rparr>)
      else phost1)"

definition EVE_CoDl_restoreContext :: "EVE_Config \<Rightarrow> EVE_HalContext \<Rightarrow> EVE_HalContext" where
  "EVE_CoDl_restoreContext cfg phost =
     (let phost1 = EVE_CoCmd_dl RESTORE_CONTEXT phost in
      if EVE_DL_OPTIMIZE cfg \<or> EVE_DL_CACHE_SCISSOR cfg then
        phost1\<lparr>DlStateIndex :=
          word_of_int ((uint (DlStateIndex phost1) - 1) AND EVE_DL_STATE_STACK_MASK cfg)\<rparr>
      else phost1)"

definition EVE_CoDl_return :: "EVE_Config \<Rightarrow> EVE_HalContext \<Rightarrow> EVE_HalContext" where
  "EVE_CoDl_return cfg phost = EVE_CoCmd_dl RETURN phost"

definition EVE_CoDl_macro :: "EVE_Config \<Rightarrow> u16 \<Rightarrow> EVE_HalContext \<Rightarrow> EVE_HalContext" where
  "EVE_CoDl_macro cfg m phost = EVE_CoCmd_dl (MACRO m) phost"

definition EVE_CoDl_clear ::
  "EVE_Config \<Rightarrow> bool \<Rightarrow> bool \<Rightarrow> bool \<Rightarrow> EVE_HalContext \<Rightarrow> EVE_HalContext" where
  "EVE_CoDl_clear cfg c s t phost = EVE_CoCmd_dl (CLEAR c s t) phost"

definition EVE_CoDl_vertexFormat :: "EVE_Config \<Rightarrow> u8 \<Rightarrow> EVE_HalContext \<Rightarrow> EVE_HalContext" where
  "EVE_CoDl_vertexFormat cfg frac phost =
     (if EVE_DL_OPTIMIZE cfg then
        (if frac \<noteq> VertexFormat (EVE_DL_STATE phost) then
           (let phost1 = EVE_CoCmd_dl (VERTEX_FORMAT frac) phost in
            EVE_DL_STATE_set ((EVE_DL_STATE phost1)\<lparr>VertexFormat := frac\<rparr>) phost1)
         else phost)
      else EVE_CoCmd_dl (VERTEX_FORMAT frac) phost)"

definition EVE_CoDl_paletteSource :: "EVE_Config \<Rightarrow> u32 \<Rightarrow> EVE_HalContext \<Rightarrow> EVE_HalContext" where
  "EVE_CoDl_paletteSource cfg addr phost =
     (if EVE_DL_OPTIMIZE cfg then
        (if addr \<noteq> PaletteSource (EVE_DL_STATE phost) then
           (let phost1 = EVE_CoCmd_dl (PALETTE_SOURCE addr) phost in
            EVE_DL_STATE_set ((EVE_DL_STATE phost1)\<lparr>PaletteSource := addr\<rparr>) phost1)
         else phost)
      else EVE_CoCmd_dl (PALETTE_SOURCE addr) phost)"

definition EVE_CoDl_vertexTranslateX :: "EVE_Config \<Rightarrow> i16 \<Rightarrow> EVE_HalContext \<Rightarrow> EVE_HalContext" where
  "EVE_CoDl_vertexTranslateX cfg x phost = EVE_CoCmd_dl (VERTEX_TRANSLATE_X x) phost"

definition EVE_CoDl_vertexTranslateY :: "EVE_Config \<Rightarrow> i16 \<Rightarrow> EVE_HalContext \<Rightarrow> EVE_HalContext" where
  "EVE_CoDl_vertexTranslateY cfg y phost = EVE_CoCmd_dl (VERTEX_TRANSLATE_Y y) phost"

definition EVE_CoDl_nop :: "EVE_Config \<Rightarrow> EVE_HalContext \<Rightarrow> EVE_HalContext" where
  "EVE_CoDl_nop cfg phost = phost"

text \<open>
  The comparisons are signed, on the \<open>int16_t\<close> arguments; \<open>x >> 1\<close> is the arithmetic
  shift of a signed value.
\<close>

definition EVE_CoDl_vertex2f_4 :: "EVE_Config \<Rightarrow> i16 \<Rightarrow> i16 \<Rightarrow> EVE_HalContext \<Rightarrow> EVE_HalContext" where
  "EVE_CoDl_vertex2f_4 cfg x y phost =
     (if sint x > EVE_VERTEX2F_MAX \<or> sint y > EVE_VERTEX2F_MAX then
        EVE_CoDl_vertex2f cfg (signed_drop_bit 1 x) (signed_drop_bit 1 y)
          (EVE_CoDl_vertexFormat cfg 3 phost)
      else
        EVE_CoDl_vertex2f cfg x y (EVE_CoDl_vertexFormat cfg 4 phost))"

definition EVE_CoDl_vertex2f_2 :: "EVE_Config \<Rightarrow> i16 \<Rightarrow> i16 \<Rightarrow> EVE_HalContext \<Rightarrow> EVE_HalContext" where
  "EVE_CoDl_vertex2f_2 cfg x y phost =
     EVE_CoDl_vertex2f cfg x y (EVE_CoDl_vertexFormat cfg 2 phost)"

definition EVE_CoDl_vertex2f_0 :: "EVE_Config \<Rightarrow> i16 \<Rightarrow> i16 \<Rightarrow> EVE_HalContext \<Rightarrow> EVE_HalContext" where
  "EVE_CoDl_vertex2f_0 cfg x y phost =
     EVE_CoDl_vertex2f cfg x y (EVE_CoDl_vertexFormat cfg 0 phost)"

section \<open>Sequences of calls\<close>

text \<open>
  A call of a function of the header, with its arguments fixed, is a transformer of the
  host context. \<open>EVE_CoDl_plain\<close> collects the calls of every function of the header
  except \<open>EVE_CoDl_saveContext\<close> and \<open>EVE_CoDl_restoreContext\<close>; \<open>EVE_CoDl_ops\<close>
  adds these two. \<open>run_ops\<close> performs a list of calls from left to right.
\<close>

inductive_set EVE_CoDl_plain :: "EVE_Config \<Rightarrow> (EVE_HalContext \<Rightarrow> EVE_HalContext) set"
  for cfg :: EVE_Config where
    op_display: "EVE_CoDl_display cfg \<in> EVE_CoDl_plain cfg"
  |    op_vertex2f: "EVE_CoDl_vertex2f cfg x y \<in> EVE_CoDl_plain cfg"
  |    op_vertex2ii: "EVE_CoDl_vertex2ii cfg x y handle cell \<in> EVE_CoDl_plain cfg"
  |    op_bitmapSource: "EVE_CoDl_bitmapSource cfg addr \<in> EVE_CoDl_plain cfg"
  |    op_bitmapSource_ex: "EVE_CoDl_bitmapSource_ex cfg addr flash \<in> EVE_CoDl_plain cfg"
  |    op_clearColorRgb_ex: "EVE_CoDl_clearColorRgb_ex cfg c \<in> EVE_CoDl_plain cfg"
  |    op_clearColorRgb: "EVE_CoDl_clearColorRgb cfg r g b \<in> EVE_CoDl_plain cfg"
  |    op_clearColorA: "EVE_CoDl_clearColorA cfg alpha \<in> EVE_CoDl_plain cfg"
  |    op_clearColorArgb_ex: "EVE_CoDl_clearColorArgb_ex cfg c \<in> EVE_CoDl_plain cfg"
  |    op_tag: "EVE_CoDl_tag cfg s \<in> EVE_CoDl_plain cfg"
  |    op_colorRgb_ex: "EVE_CoDl_colorRgb_ex cfg c \<in> EVE_CoDl_plain cfg"
  |    op_colorRgb: "EVE_CoDl_colorRgb cfg r g b \<in> EVE_CoDl_plain cfg"
  |    op_colorA: "EVE_CoDl_colorA cfg alpha \<in> EVE_CoDl_plain cfg"
  |    op_colorArgb_ex: "EVE_CoDl_colorArgb_ex cfg c \<in> EVE_CoDl_plain cfg"
  |    op_bitmapHandle: "EVE_CoDl_bitmapHandle cfg handle \<in> EVE_CoDl_plain cfg"
  |    op_cell: "EVE_CoDl_cell cfg cell \<in> EVE_CoDl_plain cfg"
  |    op_bitmapLayout: "EVE_CoDl_bitmapLayout cfg format linestride height \<in> EVE_CoDl_plain cfg"
  |    op_bitmapSize: "EVE_CoDl_bitmapSize cfg flt wrapx wrapy width height \<in> EVE_CoDl_plain cfg"
  |    op_alphaFunc: "EVE_CoDl_alphaFunc cfg func ref \<in> EVE_CoDl_plain cfg"
  |    op_stencilFunc: "EVE_CoDl_stencilFunc cfg func ref msk \<in> EVE_CoDl_plain cfg"
  |    op_blendFunc: "EVE_CoDl_blendFunc cfg src dst \<in> EVE_CoDl_plain cfg"
  |    op_blendFunc_default: "EVE_CoDl_blendFunc_default cfg \<in> EVE_CoDl_plain cfg"
  |    op_stencilOp: "EVE_CoDl_stencilOp cfg sfail spass \<in> EVE_CoDl_plain cfg"
  |    op_pointSize: "EVE_CoDl_pointSize cfg sz \<in> EVE_CoDl_plain cfg"
  |    op_lineWidth: "EVE_CoDl_lineWidth cfg width \<in> EVE_CoDl_plain cfg"
  |    op_clearStencil: "EVE_CoDl_clearStencil cfg s \<in> EVE_CoDl_plain cfg"
  |    op_clearTag: "EVE_CoDl_clearTag cfg s \<in> EVE_CoDl_plain cfg"
  |    op_stencilMask: "EVE_CoDl_stencilMask cfg msk \<in> EVE_CoDl_plain cfg"
  |    op_tagMask: "EVE_CoDl_tagMask cfg msk \<in> EVE_CoDl_plain cfg"
  |    op_bitmapTransformA: "EVE_CoDl_bitmapTransformA cfg v \<in> EVE_CoDl_plain cfg"
  |    op_bitmapTransformA_ex: "EVE_CoDl_bitmapTransformA_ex cfg p v \<in> EVE_CoDl_plain cfg"
  |    op_bitmapTransformB: "EVE_CoDl_bitmapTransformB cfg v \<in> EVE_CoDl_plain cfg"
  |    op_bitmapTransformB_ex: "EVE_CoDl_bitmapTransformB_ex cfg p v \<in> EVE_CoDl_plain cfg"
  |    op_bitmapTransformC: "EVE_CoDl_bitmapTransformC cfg v \<in> EVE_CoDl_plain cfg"
  |    op_bitmapTransformD: "EVE_CoDl_bitmapTransformD cfg v \<in> EVE_CoDl_plain cfg"
  |    op_bitmapTransformD_ex: "EVE_CoDl_bitmapTransformD_ex cfg p v \<in> EVE_CoDl_plain cfg"
  |    op_bitmapTransformE: "EVE_CoDl_bitmapTransformE cfg v \<in> EVE_CoDl_plain cfg"
  |    op_bitmapTransformE_ex: "EVE_CoDl_bitmapTransformE_ex cfg p v \<in> EVE_CoDl_plain cfg"
  |    op_bitmapTransformF: "EVE_CoDl_bitmapTransformF cfg v \<in> EVE_CoDl_plain cfg"
  |    op_bitmapTransform_ex: "EVE_CoDl_bitmapTransform_ex cfg p a b c d e f \<in> EVE_CoDl_plain cfg"
  |    op_bitmapTransform_identity: "EVE_CoDl_bitmapTransform_identity cfg \<in> EVE_CoDl_plain cfg"
  |    op_scissorXY: "EVE_CoDl_scissorXY cfg x y \<in> EVE_CoDl_plain cfg"
  |    op_scissorSize: "EVE_CoDl_scissorSize cfg width height \<in> EVE_CoDl_plain cfg"
  |    op_call: "EVE_CoDl_call cfg dest \<in> EVE_CoDl_plain cfg"
  |    op_jump: "EVE_CoDl_jump cfg dest \<in> EVE_CoDl_plain cfg"
  |    op_begin: "EVE_CoDl_begin cfg prim \<in> EVE_CoDl_plain cfg"
  |    op_colorMask: "EVE_CoDl_colorMask cfg r g b a \<in> EVE_CoDl_plain cfg"
  |    op_end: "EVE_CoDl_end cfg \<in> EVE_CoDl_plain cfg"
  |    op_return: "EVE_CoDl_return cfg \<in> EVE_CoDl_plain cfg"
  |    op_macro: "EVE_CoDl_macro cfg m \<in> EVE_CoDl_plain cfg"
  |    op_clear: "EVE_CoDl_clear cfg c s t \<in> EVE_CoDl_plain cfg"
  |    op_vertexFormat: "EVE_CoDl_vertexFormat cfg frac \<in> EVE_CoDl_plain cfg"
  |    op_paletteSource: "EVE_CoDl_paletteSource cfg addr \<in> EVE_CoDl_plain cfg"
  |    op_vertexTranslateX: "EVE_CoDl_vertexTranslateX cfg x \<in> EVE_CoDl_plain cfg"
  |    op_vertexTranslateY: "EVE_CoDl_vertexTranslateY cfg y \<in> EVE_CoDl_plain cfg"
  |    op_nop: "EVE_CoDl_nop cfg \<in> EVE_CoDl_plain cfg"
  |    op_vertex2f_4: "EVE_CoDl_vertex2f_4 cfg x y \<in> EVE_CoDl_plain cfg"
  |    op_vertex2f_2: "EVE_CoDl_vertex2f_2 cfg x y \<in> EVE_CoDl_plain cfg"
  |    op_vertex2f_0: "EVE_CoDl_vertex2f_0 cfg x y \<in> EVE_CoDl_plain cfg"

definition EVE_CoDl_ops :: "EVE_Config \<Rightarrow> (EVE_HalContext \<Rightarrow> EVE_HalContext) set" where
  "EVE_CoDl_ops cfg =
     insert (EVE_CoDl_saveContext cfg) (insert (EVE_CoDl_restoreContext cfg) (EVE_CoDl_plain cfg))"

text \<open>
  \<open>EVE_CoDl_no_primitive\<close> collects the calls of every function of the header except
  \<open>EVE_CoDl_saveContext\<close>, \<open>EVE_CoDl_restoreContext\<close>, \<open>EVE_CoDl_begin\<close> and
  \<open>EVE_CoDl_end\<close>: the setters and the functions that only emit.
\<close>

inductive_set EVE_CoDl_no_primitive :: "EVE_Config \<Rightarrow> (EVE_HalContext \<Rightarrow> EVE_HalContext) set"
  for cfg :: EVE_Config where
    np_display: "EVE_CoDl_display cfg \<in> EVE_CoDl_no_primitive cfg"
  |    np_vertex2f: "EVE_CoDl_vertex2f cfg x y \<in> EVE_CoDl_no_primitive cfg"
  |    np_vertex2ii: "EVE_CoDl_vertex2ii cfg x y handle cell \<in> EVE_CoDl_no_primitive cfg"
  |    np_bitmapSource: "EVE_CoDl_bitmapSource cfg addr \<in> EVE_CoDl_no_primitive cfg"
  |    np_bitmapSource_ex: "EVE_CoDl_bitmapSource_ex cfg addr flash \<in> EVE_CoDl_no_primitive cfg"
  |    np_clearColorRgb_ex: "EVE_CoDl_clearColorRgb_ex cfg c \<in> EVE_CoDl_no_primitive cfg"
  |    np_clearColorRgb: "EVE_CoDl_clearColorRgb cfg r g b \<in> EVE_CoDl_no_primitive cfg"
  |    np_clearColorA: "EVE_CoDl_clearColorA cfg alpha \<in> EVE_CoDl_no_primitive cfg"
  |    np_clearColorArgb_ex: "EVE_CoDl_clearColorArgb_ex cfg c \<in> EVE_CoDl_no_primitive cfg"
  |    np_tag: "EVE_CoDl_tag cfg s \<in> EVE_CoDl_no_primitive cfg"
  |    np_colorRgb_ex: "EVE_CoDl_colorRgb_ex cfg c \<in> EVE_CoDl_no_primitive cfg"
  |    np_colorRgb: "EVE_CoDl_colorRgb cfg r g b \<in> EVE_CoDl_no_primitive cfg"
  |    np_colorA: "EVE_CoDl_colorA cfg alpha \<in> EVE_CoDl_no_primitive cfg"
  |    np_colorArgb_ex: "EVE_CoDl_colorArgb_ex cfg c \<in> EVE_CoDl_no_primitive cfg"
  |    np_bitmapHandle: "EVE_CoDl_bitmapHandle cfg handle \<in> EVE_CoDl_no_primitive cfg"
  |    np_cell: "EVE_CoDl_cell cfg cell \<in> EVE_CoDl_no_primitive cfg"
  |    np_bitmapLayout: "EVE_CoDl_bitmapLayout cfg format linestride height \<in> EVE_CoDl_no_primitive cfg"
  |    np_bitmapSize: "EVE_CoDl_bitmapSize cfg flt wrapx wrapy width height \<in> EVE_CoDl_no_primitive cfg"
  |    np_alphaFunc: "EVE_CoDl_alphaFunc cfg func ref \<in> EVE_CoDl_no_primitive cfg"
  |    np_stencilFunc: "EVE_CoDl_stencilFunc cfg func ref msk \<in> EVE_CoDl_no_primitive cfg"
  |    np_blendFunc: "EVE_CoDl_blendFunc cfg src dst \<in> EVE_CoDl_no_primitive cfg"
  |    np_blendFunc_default: "EVE_CoDl_blendFunc_default cfg \<in> EVE_CoDl_no_primitive cfg"
  |    np_stencilOp: "EVE_CoDl_stencilOp cfg sfail spass \<in> EVE_CoDl_no_primitive cfg"
  |    np_pointSize: "EVE_CoDl_pointSize cfg sz \<in> EVE_CoDl_no_primitive cfg"
  |    np_lineWidth: "EVE_CoDl_lineWidth cfg width \<in> EVE_CoDl_no_primitive cfg"
  |    np_clearStencil: "EVE_CoDl_clearStencil cfg s \<in> EVE_CoDl_no_primitive cfg"
  |    np_clearTag: "EVE_CoDl_clearTag cfg s \<in> EVE_CoDl_no_primitive cfg"
  |    np_stencilMask: "EVE_CoDl_stencilMask cfg msk \<in> EVE_CoDl_no_primitive cfg"
  |    np_tagMask: "EVE_CoDl_tagMask cfg msk \<in> EVE_CoDl_no_primitive cfg"
  |    np_bitmapTransformA: "EVE_CoDl_bitmapTransformA cfg v \<in> EVE_CoDl_no_primitive cfg"
  |    np_bitmapTransformA_ex: "EVE_CoDl_bitmapTransformA_ex cfg p v \<in> EVE_CoDl_no_primitive cfg"
  |    np_bitmapTransformB: "EVE_CoDl_bitmapTransformB cfg v \<in> EVE_CoDl_no_primitive cfg"
  |    np_bitmapTransformB_ex: "EVE_CoDl_bitmapTransformB_ex cfg p v \<in> EVE_CoDl_no_primitive cfg"
  |    np_bitmapTransformC: "EVE_CoDl_bitmapTransformC cfg v \<in> EVE_CoDl_no_primitive cfg"
  |    np_bitmapTransformD: "EVE_CoDl_bitmapTransformD cfg v \<in> EVE_CoDl_no_primitive cfg"
  |    np_bitmapTransformD_ex: "EVE_CoDl_bitmapTransformD_ex cfg p v \<in> EVE_CoDl_no_primitive cfg"
  |    np_bitmapTransformE: "EVE_CoDl_bitmapTransformE cfg v \<in> EVE_CoDl_no_primitive cfg"
  |    np_bitmapTransformE_ex: "EVE_CoDl_bitmapTransformE_ex cfg p v \<in> EVE_CoDl_no_primitive cfg"
  |    np_bitmapTransformF: "EVE_CoDl_bitmapTransformF cfg v \<in> EVE_CoDl_no_primitive cfg"
  |    np_bitmapTransform_ex: "EVE_CoDl_bitmapTransform_ex cfg p a b c d e f \<in> EVE_CoDl_no_primitive cfg"
  |    np_bitmapTransform_identity: "EVE_CoDl_bitmapTransform_identity cfg \<in> EVE_CoDl_no_primitive cfg"
  |    np_scissorXY: "EVE_CoDl_scissorXY cfg x y \<in> EVE_CoDl_no_primitive cfg"
  |    np_scissorSize: "EVE_CoDl_scissorSize cfg width height \<in> EVE_CoDl_no_primitive cfg"
  |    np_call: "EVE_CoDl_call cfg dest \<in> EVE_CoDl_no_primitive cfg"
  |    np_jump: "EVE_CoDl_jump cfg dest \<in> EVE_CoDl_no_primitive cfg"
  |    np_colorMask: "EVE_CoDl_colorMask cfg r g b a \<in> EVE_CoDl_no_primitive cfg"
  |    np_return: "EVE_CoDl_return cfg \<in> EVE_CoDl_no_primitive cfg"
  |    np_macro: "EVE_CoDl_macro cfg m \<in> EVE_CoDl_no_primitive cfg"
  |    np_clear: "EVE_CoDl_clear cfg c s t \<in> EVE_CoDl_no_primitive cfg"
  |    np_vertexFormat: "EVE_CoDl_vertexFormat cfg frac \<in> EVE_CoDl_no_primitive cfg"
  |    np_paletteSource: "EVE_CoDl_paletteSource cfg addr \<in> EVE_CoDl_no_primitive cfg"
  |    np_vertexTranslateX: "EVE_CoDl_vertexTranslateX cfg x \<in> EVE_CoDl_no_primitive cfg"
  |    np_vertexTranslateY: "EVE_CoDl_vertexTranslateY cfg y \<in> EVE_CoDl_no_primitive cfg"
  |    np_nop: "EVE_CoDl_nop cfg \<in> EVE_CoDl_no_primitive cfg"
  |    np_vertex2f_4: "EVE_CoDl_vertex2f_4 cfg x y \<in> EVE_CoDl_no_primitive cfg"
  |    np_vertex2f_2: "EVE_CoDl_vertex2f_2 cfg x y \<in> EVE_CoDl_no_primitive cfg"
  |    np_vertex2f_0: "EVE_CoDl_vertex2f_0 cfg x y \<in> EVE_CoDl_no_primitive cfg"

definition run_ops :: "(EVE_HalContext \<Rightarrow> EVE_HalContext) list \<Rightarrow> EVE_HalContext \<Rightarrow> EVE_HalContext" where
  "run_ops fs phost = fold (\<lambda>f s. f s) fs phost"

text \<open>
  \<open>saves_then_restores cfg ss rs\<close> is a save followed by the calls \<open>ss ! 0\<close>, a save
  followed by \<open>ss ! 1\<close>, and so on, then the calls \<open>rs ! 0\<close> followed by a restore,
  \<open>rs ! 1\<close> followed by a restore, and so on: \<open>length ss\<close> saves, then \<open>length rs\<close>
  restores, with other calls interleaved and nothing after the last restore.
\<close>

definition saves_then_restores ::
  "EVE_Config \<Rightarrow> (EVE_HalContext \<Rightarrow> EVE_HalContext) list list \<Rightarrow>
     (EVE_HalContext \<Rightarrow> EVE_HalContext) list list \<Rightarrow> (EVE_HalContext \<Rightarrow> EVE_HalContext) list" where
  "saves_then_restores cfg ss rs =
     concat (map (\<lambda>s. EVE_CoDl_saveContext cfg # s) ss) @
     concat (map (\<lambda>r. r @ [EVE_CoDl_restoreContext cfg]) rs)"

section \<open>The cacheable setters\<close>

text \<open>
  The eight setters that compare their argument with one field of the active snapshot.
  \<open>call_setter\<close> is the call, \<open>setter_instr\<close> the word the call hands to
  \<open>EVE_CoCmd_dl\<close> when it emits, and \<open>shadow_holds\<close> says that the field of the
  snapshot already holds the value (for the colour, the low 24 bits of the argument).
\<close>

datatype cached_setter =
    Set_colorRgb u32
  | Set_colorA u8
  | Set_bitmapHandle u8
  | Set_cell u8
  | Set_pointSize i16
  | Set_lineWidth i16
  | Set_vertexFormat u8
  | Set_paletteSource u32

fun call_setter :: "EVE_Config \<Rightarrow> cached_setter \<Rightarrow> EVE_HalContext \<Rightarrow> EVE_HalContext" where
  "call_setter cfg (Set_colorRgb c) = EVE_CoDl_colorRgb_ex cfg c"
| "call_setter cfg (Set_colorA alpha) = EVE_CoDl_colorA cfg alpha"
| "call_setter cfg (Set_bitmapHandle handle) = EVE_CoDl_bitmapHandle cfg handle"
| "call_setter cfg (Set_cell cell) = EVE_CoDl_cell cfg cell"
| "call_setter cfg (Set_pointSize sz) = EVE_CoDl_pointSize cfg sz"
| "call_setter cfg (Set_lineWidth width) = EVE_CoDl_lineWidth cfg width"
| "call_setter cfg (Set_vertexFormat frac) = EVE_CoDl_vertexFormat cfg frac"
| "call_setter cfg (Set_paletteSource addr) = EVE_CoDl_paletteSource cfg addr"

fun setter_instr :: "cached_setter \<Rightarrow> dl_instr" where
  "setter_instr (Set_colorRgb c) = OR_bits (COLOR_RGB 0 0 0) (c AND 0xFFFFFF)"
| "setter_instr (Set_colorA alpha) = COLOR_A alpha"
| "setter_instr (Set_bitmapHandle handle) = BITMAP_HANDLE handle"
| "setter_instr (Set_cell cell) = CELL cell"
| "setter_instr (Set_pointSize sz) = POINT_SIZE sz"
| "setter_instr (Set_lineWidth width) = LINE_WIDTH width"
| "setter_instr (Set_vertexFormat frac) = VERTEX_FORMAT frac"
| "setter_instr (Set_paletteSource addr) = PALETTE_SOURCE addr"

fun shadow_holds :: "cached_setter \<Rightarrow> EVE_HalDlState \<Rightarrow> bool" where
  "shadow_holds (Set_colorRgb c) s \<longleftrightarrow> ColorRGB s = c AND 0xFFFFFF"
| "shadow_holds (Set_colorA alpha) s \<longleftrightarrow> ColorA s = alpha"
| "shadow_holds (Set_bitmapHandle handle) s \<longleftrightarrow> Handle s = handle"
| "shadow_holds (Set_cell cell) s \<longleftrightarrow> Cell s = cell"
| "shadow_holds (Set_pointSize sz) s \<longleftrightarrow> PointSize s = sz"
| "shadow_holds (Set_lineWidth width) s \<longleftrightarrow> LineWidth s = width"
| "shadow_holds (Set_vertexFormat frac) s \<longleftrightarrow> VertexFormat s = frac"
| "shadow_holds (Set_paletteSource addr) s \<longleftrightarrow> PaletteSource s = addr"

text \<open>
  Two calls of the same setter whose values differ (for the colour, in the low 24 bits).
\<close>

fun same_setter_other_value :: "cached_setter \<Rightarrow> cached_setter \<Rightarrow> bool" where
  "same_setter_other_value (Set_colorRgb c1) (Set_colorRgb c2) \<longleftrightarrow>
     c1 AND 0xFFFFFF \<noteq> c2 AND 0xFFFFFF"
| "same_setter_other_value (Set_colorA v1) (Set_colorA v2) \<longleftrightarrow> v1 \<noteq> v2"
| "same_setter_other_value (Set_bitmapHandle v1) (Set_bitmapHandle v2) \<longleftrightarrow> v1 \<noteq> v2"
| "same_setter_other_value (Set_cell v1) (Set_cell v2) \<longleftrightarrow> v1 \<noteq> v2"
| "same_setter_other_value (Set_pointSize v1) (Set_pointSize v2) \<longleftrightarrow> v1 \<noteq> v2"
| "same_setter_other_value (Set_lineWidth v1) (Set_lineWidth v2) \<longleftrightarrow> v1 \<noteq> v2"
| "same_setter_other_value (Set_vertexFormat v1) (Set_vertexFormat v2) \<longleftrightarrow> v1 \<noteq> v2"
| "same_setter_other_value (Set_paletteSource v1) (Set_paletteSource v2) \<longleftrightarrow> v1 \<noteq> v2"
| "same_setter_other_value _ _ \<longleftrightarrow> False"

section \<open>Vocabulary of the primitive and transform properties\<close>

text \<open>
  The five primitives that the \<open>switch\<close> of \<open>EVE_CoDl_begin\<close> lists, and the value
  that \<open>EVE_CoDl_begin\<close> compares its argument with.
\<close>

definition is_strip :: "EVE_Config \<Rightarrow> u8 \<Rightarrow> bool" where
  "is_strip cfg prim \<longleftrightarrow>
     prim = LINE_STRIP cfg \<or> prim = EDGE_STRIP_R cfg \<or> prim = EDGE_STRIP_L cfg \<or>
     prim = EDGE_STRIP_A cfg \<or> prim = EDGE_STRIP_B cfg"

definition effective_primitive :: "EVE_Config \<Rightarrow> EVE_HalContext \<Rightarrow> u8" where
  "effective_primitive cfg phost =
     (if is_strip cfg (DlPrimitive phost) then 0 else DlPrimitive phost)"

text \<open>
  The words of the identity transform, A to F, and the calls that set one coefficient.
\<close>

definition identity_transform_words :: "dl_instr list" where
  "identity_transform_words =
     [BITMAP_TRANSFORM_A_EXT False 256, BITMAP_TRANSFORM_B_EXT False 0, BITMAP_TRANSFORM_C 0,
      BITMAP_TRANSFORM_D_EXT False 0, BITMAP_TRANSFORM_E_EXT False 256, BITMAP_TRANSFORM_F 0]"

inductive_set bitmapTransform_coefficient ::
  "EVE_Config \<Rightarrow> (EVE_HalContext \<Rightarrow> EVE_HalContext) set" for cfg :: EVE_Config where
    coef_A: "EVE_CoDl_bitmapTransformA cfg v \<in> bitmapTransform_coefficient cfg"
  | coef_A_ex: "EVE_CoDl_bitmapTransformA_ex cfg p v \<in> bitmapTransform_coefficient cfg"
  | coef_B: "EVE_CoDl_bitmapTransformB cfg v \<in> bitmapTransform_coefficient cfg"
  | coef_B_ex: "EVE_CoDl_bitmapTransformB_ex cfg p v \<in> bitmapTransform_coefficient cfg"
  | coef_C: "EVE_CoDl_bitmapTransformC cfg w \<in> bitmapTransform_coefficient cfg"
  | coef_D: "EVE_CoDl_bitmapTransformD cfg v \<in> bitmapTransform_coefficient cfg"
  | coef_D_ex: "EVE_CoDl_bitmapTransformD_ex cfg p v \<in> bitmapTransform_coefficient cfg"
  | coef_E: "EVE_CoDl_bitmapTransformE cfg v \<in> bitmapTransform_coefficient cfg"
  | coef_E_ex: "EVE_CoDl_bitmapTransformE_ex cfg p v \<in> bitmapTransform_coefficient cfg"
  | coef_F: "EVE_CoDl_bitmapTransformF cfg w \<in> bitmapTransform_coefficient cfg"

text \<open>
  \<open>stack_depth_inv cfg i s0 d phost\<close> describes a context \<open>d\<close> saves above a
  context whose active snapshot was slot \<open>i\<close> with contents \<open>s0\<close>: the array has
  its full length, the index is \<open>i + d\<close> modulo the capacity, and slot \<open>i\<close> still
  holds \<open>s0\<close>.
\<close>

definition stack_depth_inv ::
  "EVE_Config \<Rightarrow> nat \<Rightarrow> EVE_HalDlState \<Rightarrow> nat \<Rightarrow> EVE_HalContext \<Rightarrow> bool" where
  "stack_depth_inv cfg i s0 d phost \<longleftrightarrow>
     length (DlState phost) = EVE_DL_STATE_STACK_SIZE cfg \<and>
     uint (DlStateIndex phost) = (int i + int d) mod 2 ^ EVE_DL_STATE_STACK_BITS cfg \<and>
     DlState phost ! i = s0"

section \<open>Reset and a sample build\<close>

text \<open>
  Modelled from the spec: \<open>EVE_CoDlImpl_resetDlState\<close> is only declared in the header.
  The spec says that it reinitialises the shadow state, the context stack and the
  primitive state to defaults, and that the state starts with the identity bitmap
  transform. The other default values are not given and are a parameter.
\<close>

definition EVE_CoDlImpl_resetDlState ::
  "EVE_Config \<Rightarrow> EVE_HalDlState \<Rightarrow> EVE_HalContext \<Rightarrow> EVE_HalContext" where
  "EVE_CoDlImpl_resetDlState cfg defaults phost =
     phost\<lparr>DlStateIndex := 0,
           DlState := (DlState phost)[0 := defaults\<lparr>BitmapTransform := False\<rparr>],
           DlPrimitive := 0\<rparr>"

text \<open>
  The identity flag of the spec is the negation of the field \<open>BitmapTransform\<close>.
\<close>

definition bitmapTransformIsIdentity :: "EVE_HalContext \<Rightarrow> bool" where
  "bitmapTransformIsIdentity phost \<longleftrightarrow> \<not> BitmapTransform (EVE_DL_STATE phost)"

text \<open>
  A sample build for the worked examples: all three switches on, a context stack of four
  snapshots, and the primitive and blend codes of the FT81x programming guide.
  \<open>example_context\<close> is a context with an empty stream whose four snapshots are equal.
\<close>

definition example_config :: EVE_Config where
  "example_config =
     \<lparr>EVE_DL_OPTIMIZE = True, EVE_DL_CACHE_SCISSOR = True, EVE_DL_END_PRIMITIVE = True,
      EVE_DL_STATE_STACK_BITS = 2, LINE_STRIP = 4, EDGE_STRIP_R = 5, EDGE_STRIP_L = 6,
      EDGE_STRIP_A = 7, EDGE_STRIP_B = 8, SRC_ALPHA = 2, ONE_MINUS_SRC_ALPHA = 4\<rparr>"

definition example_state :: EVE_HalDlState where
  "example_state =
     \<lparr>ColorRGB = 0xFFFFFF, ColorA = 0xFF, Handle = 0x3F, Cell = 0, PointSize = 16,
      LineWidth = 16, VertexFormat = 4, PaletteSource = 0, BitmapTransform = False,
      ScissorX = 0, ScissorY = 0, ScissorWidth = 480, ScissorHeight = 272\<rparr>"

definition example_context :: EVE_HalContext where
  "example_context =
     \<lparr>DlState = [example_state, example_state, example_state, example_state],
      DlStateIndex = 0, DlPrimitive = 0, CmdDl = []\<rparr>"

section \<open>Properties\<close>

subsection \<open>Basic facts\<close>

lemma EVE_CoCmd_dl_simps [simp]:
  "DlState (EVE_CoCmd_dl w phost) = DlState phost"
  "DlStateIndex (EVE_CoCmd_dl w phost) = DlStateIndex phost"
  "DlPrimitive (EVE_CoCmd_dl w phost) = DlPrimitive phost"
  "CmdDl (EVE_CoCmd_dl w phost) = CmdDl phost @ [w]"
  "EVE_DL_STATE (EVE_CoCmd_dl w phost) = EVE_DL_STATE phost"
  by (simp_all add: EVE_CoCmd_dl_def EVE_DL_STATE_def)

lemma EVE_DL_STATE_set_simps [simp]:
  "DlStateIndex (EVE_DL_STATE_set s phost) = DlStateIndex phost"
  "DlPrimitive (EVE_DL_STATE_set s phost) = DlPrimitive phost"
  "CmdDl (EVE_DL_STATE_set s phost) = CmdDl phost"
  "length (DlState (EVE_DL_STATE_set s phost)) = length (DlState phost)"
  by (simp_all add: EVE_DL_STATE_set_def)

lemma EVE_DL_STATE_set_get [simp]:
  "unat (DlStateIndex phost) < length (DlState phost) \<Longrightarrow>
     EVE_DL_STATE (EVE_DL_STATE_set s phost) = s"
  by (simp add: EVE_DL_STATE_set_def EVE_DL_STATE_def)

lemma EVE_DL_STATE_set_other [simp]:
  "k \<noteq> unat (DlStateIndex phost) \<Longrightarrow> DlState (EVE_DL_STATE_set s phost) ! k = DlState phost ! k"
  by (simp add: EVE_DL_STATE_set_def)

lemma in_boundsD:
  "dl_state_in_bounds cfg phost \<Longrightarrow> unat (DlStateIndex phost) < length (DlState phost)"
  by (simp add: dl_state_in_bounds_def)

subsection \<open>Cacheable setters\<close>

lemmas setter_defs = EVE_CoDl_colorRgb_ex_def EVE_CoDl_colorA_def EVE_CoDl_bitmapHandle_def
  EVE_CoDl_cell_def EVE_CoDl_pointSize_def EVE_CoDl_lineWidth_def EVE_CoDl_vertexFormat_def
  EVE_CoDl_paletteSource_def

lemma setter_emits:
  assumes "EVE_DL_OPTIMIZE cfg" "unat (DlStateIndex phost) < length (DlState phost)"
    "\<not> shadow_holds x (EVE_DL_STATE phost)"
  shows "CmdDl (call_setter cfg x phost) = CmdDl phost @ [setter_instr x]"
    and "shadow_holds x (EVE_DL_STATE (call_setter cfg x phost))"
    and "DlStateIndex (call_setter cfg x phost) = DlStateIndex phost"
    and "length (DlState (call_setter cfg x phost)) = length (DlState phost)"
  using assms by (cases x; simp add: setter_defs Let_def; metis)+

lemma setter_skips:
  assumes "EVE_DL_OPTIMIZE cfg" "shadow_holds x (EVE_DL_STATE phost)"
  shows "call_setter cfg x phost = phost"
  using assms by (cases x; simp add: setter_defs Let_def)

lemma other_value_not_holds:
  "same_setter_other_value x1 x2 \<Longrightarrow> shadow_holds x1 s \<Longrightarrow> \<not> shadow_holds x2 s"
  by (cases x1; cases x2; simp)

lemma setter_holds_after:
  assumes "EVE_DL_OPTIMIZE cfg" and "unat (DlStateIndex phost) < length (DlState phost)"
  shows "shadow_holds x (EVE_DL_STATE (call_setter cfg x phost))"
proof (cases "shadow_holds x (EVE_DL_STATE phost)")
  case True
  then show ?thesis using setter_skips [OF assms(1) True] by simp
next
  case False
  then show ?thesis using setter_emits(2) [OF assms False] by simp
qed

lemma setter_bounds_after:
  assumes "EVE_DL_OPTIMIZE cfg" and "unat (DlStateIndex phost) < length (DlState phost)"
  shows "unat (DlStateIndex (call_setter cfg x phost)) < length (DlState (call_setter cfg x phost))"
proof (cases "shadow_holds x (EVE_DL_STATE phost)")
  case True
  then show ?thesis using setter_skips [OF assms(1) True] assms(2) by simp
next
  case False
  then show ?thesis using setter_emits(3,4) [OF assms False] assms(2) by simp
qed

lemma example_in_bounds: "dl_state_in_bounds example_config example_context"
  by (simp add: dl_state_in_bounds_def example_config_def example_context_def
      EVE_DL_STATE_STACK_SIZE_def)

lemma example_state_simps:
  "EVE_DL_STATE example_context = example_state"
  by (simp add: EVE_DL_STATE_def example_context_def)

text \<open>
  Claim C1, as the code has it. With caching enabled and the index in bounds, for each of
  the eight cacheable setters and every value: a second call with the same value changes
  nothing and emits nothing, and after the first call the field holds the value (for the
  colour, its low 24 bits). The first call emits exactly one word, the setter's
  instruction, when the field did not hold the value before; when it did, the first call
  is a no-op as well.
\<close>

theorem cacheable_setter_repeat:
  assumes "EVE_DL_OPTIMIZE cfg" and "dl_state_in_bounds cfg phost"
  shows "call_setter cfg x (call_setter cfg x phost) = call_setter cfg x phost \<and>
         shadow_holds x (EVE_DL_STATE (call_setter cfg x phost)) \<and>
         (\<not> shadow_holds x (EVE_DL_STATE phost) \<longrightarrow>
            CmdDl (call_setter cfg x phost) = CmdDl phost @ [setter_instr x]) \<and>
         (shadow_holds x (EVE_DL_STATE phost) \<longrightarrow> call_setter cfg x phost = phost)"
proof -
  have b: "unat (DlStateIndex phost) < length (DlState phost)"
    using assms(2) by (rule in_boundsD)
  have holds: "shadow_holds x (EVE_DL_STATE (call_setter cfg x phost))"
    using assms(1) b by (rule setter_holds_after)
  have "call_setter cfg x (call_setter cfg x phost) = call_setter cfg x phost"
    using holds by (rule setter_skips [OF assms(1)])
  moreover have "\<not> shadow_holds x (EVE_DL_STATE phost) \<longrightarrow>
      CmdDl (call_setter cfg x phost) = CmdDl phost @ [setter_instr x]"
    using setter_emits(1) [OF assms(1) b] by blast
  moreover have "shadow_holds x (EVE_DL_STATE phost) \<longrightarrow> call_setter cfg x phost = phost"
    using setter_skips [OF assms(1)] by blast
  ultimately show ?thesis using holds by blast
qed

text \<open>
  The theorem at the sample context: alpha \<open>0x80\<close> is new and is emitted once,
  alpha \<open>0xFF\<close> is already cached.
\<close>

theorem cacheable_setter_repeat_witness:
  "EVE_DL_OPTIMIZE example_config \<and> dl_state_in_bounds example_config example_context \<and>
   \<not> shadow_holds (Set_colorA 0x80) (EVE_DL_STATE example_context) \<and>
   shadow_holds (Set_colorA 0xFF) (EVE_DL_STATE example_context) \<and>
   CmdDl (EVE_CoDl_colorA example_config 0x80 example_context) = [COLOR_A 0x80] \<and>
   EVE_CoDl_colorA example_config 0x80 (EVE_CoDl_colorA example_config 0x80 example_context) =
     EVE_CoDl_colorA example_config 0x80 example_context \<and>
   EVE_CoDl_colorA example_config 0xFF example_context = example_context"
proof -
  have o: "EVE_DL_OPTIMIZE example_config" by (simp add: example_config_def)
  have h1: "\<not> shadow_holds (Set_colorA 0x80) (EVE_DL_STATE example_context)"
    by (simp add: example_state_simps example_state_def)
  have h2: "shadow_holds (Set_colorA 0xFF) (EVE_DL_STATE example_context)"
    by (simp add: example_state_simps example_state_def)
  have e: "CmdDl example_context = []" by (simp add: example_context_def)
  show ?thesis
    using cacheable_setter_repeat [OF o example_in_bounds, of "Set_colorA 0x80"]
      cacheable_setter_repeat [OF o example_in_bounds, of "Set_colorA 0xFF"]
      o example_in_bounds h1 h2 e by simp
qed

text \<open>
  Claim C1 as stated fails when the value is already cached: two consecutive calls
  \<open>colorA(0xFF)\<close> from a context whose alpha is \<open>0xFF\<close> emit no word, not one.
\<close>

theorem cacheable_setter_repeat_counterexample:
  "EVE_DL_OPTIMIZE example_config \<and> CmdDl example_context = [] \<and>
   CmdDl (EVE_CoDl_colorA example_config 0xFF
           (EVE_CoDl_colorA example_config 0xFF example_context)) = []"
  by (simp add: EVE_CoDl_colorA_def example_config_def example_state_simps example_state_def)
     (simp add: example_context_def)

text \<open>
  Claim C2, as the code has it. With caching enabled and the index in bounds, calling a
  cacheable setter with \<open>v1\<close> and then with a different \<open>v2\<close> leaves the field equal
  to \<open>v2\<close>. The two calls emit exactly the two instructions, in order, when the field
  did not hold \<open>v1\<close> before; when it did, only the second instruction is emitted.
\<close>

theorem cacheable_setter_alternation:
  assumes "EVE_DL_OPTIMIZE cfg" and "dl_state_in_bounds cfg phost"
    and "same_setter_other_value x1 x2"
  shows "shadow_holds x2 (EVE_DL_STATE (call_setter cfg x2 (call_setter cfg x1 phost))) \<and>
         (\<not> shadow_holds x1 (EVE_DL_STATE phost) \<longrightarrow>
            CmdDl (call_setter cfg x2 (call_setter cfg x1 phost)) =
              CmdDl phost @ [setter_instr x1, setter_instr x2]) \<and>
         (shadow_holds x1 (EVE_DL_STATE phost) \<longrightarrow>
            CmdDl (call_setter cfg x2 (call_setter cfg x1 phost)) =
              CmdDl phost @ [setter_instr x2])"
proof -
  let ?p1 = "call_setter cfg x1 phost"
  have b: "unat (DlStateIndex phost) < length (DlState phost)"
    using assms(2) by (rule in_boundsD)
  have b1: "unat (DlStateIndex ?p1) < length (DlState ?p1)"
    using assms(1) b by (rule setter_bounds_after)
  have h1: "shadow_holds x1 (EVE_DL_STATE ?p1)"
    using assms(1) b by (rule setter_holds_after)
  have n2: "\<not> shadow_holds x2 (EVE_DL_STATE ?p1)"
    using assms(3) h1 by (rule other_value_not_holds)
  have second: "CmdDl (call_setter cfg x2 ?p1) = CmdDl ?p1 @ [setter_instr x2]"
    using assms(1) b1 n2 by (rule setter_emits(1))
  have final: "shadow_holds x2 (EVE_DL_STATE (call_setter cfg x2 ?p1))"
    using assms(1) b1 by (rule setter_holds_after)
  have emitted: "\<not> shadow_holds x1 (EVE_DL_STATE phost) \<longrightarrow>
      CmdDl (call_setter cfg x2 ?p1) = CmdDl phost @ [setter_instr x1, setter_instr x2]"
    using second setter_emits(1) [OF assms(1) b] by simp
  have skipped: "shadow_holds x1 (EVE_DL_STATE phost) \<longrightarrow>
      CmdDl (call_setter cfg x2 ?p1) = CmdDl phost @ [setter_instr x2]"
  proof
    assume "shadow_holds x1 (EVE_DL_STATE phost)"
    then have "?p1 = phost" by (rule setter_skips [OF assms(1)])
    then show "CmdDl (call_setter cfg x2 ?p1) = CmdDl phost @ [setter_instr x2]"
      using second by simp
  qed
  show ?thesis using final emitted skipped by blast
qed

text \<open>
  The theorem at the sample context (vertex format 4): formats 2 then 3 emit two words.
\<close>

theorem cacheable_setter_alternation_witness:
  "EVE_DL_OPTIMIZE example_config \<and> dl_state_in_bounds example_config example_context \<and>
   same_setter_other_value (Set_vertexFormat 2) (Set_vertexFormat 3) \<and>
   \<not> shadow_holds (Set_vertexFormat 2) (EVE_DL_STATE example_context) \<and>
   CmdDl (EVE_CoDl_vertexFormat example_config 3
           (EVE_CoDl_vertexFormat example_config 2 example_context)) =
     [VERTEX_FORMAT 2, VERTEX_FORMAT 3] \<and>
   VertexFormat (EVE_DL_STATE (EVE_CoDl_vertexFormat example_config 3
           (EVE_CoDl_vertexFormat example_config 2 example_context))) = 3"
proof -
  have o: "EVE_DL_OPTIMIZE example_config" by (simp add: example_config_def)
  have d: "same_setter_other_value (Set_vertexFormat 2) (Set_vertexFormat 3)" by simp
  have h1: "\<not> shadow_holds (Set_vertexFormat 2) (EVE_DL_STATE example_context)"
    by (simp add: example_state_simps example_state_def)
  have e: "CmdDl example_context = []" by (simp add: example_context_def)
  show ?thesis
    using cacheable_setter_alternation [OF o example_in_bounds d] o example_in_bounds h1 e
    by simp
qed

text \<open>
  Claim C2 as stated fails when \<open>v1\<close> is already cached: \<open>colorA(0xFF)\<close> then
  \<open>colorA(0x80)\<close> from a context whose alpha is \<open>0xFF\<close> emits one word, not two.
\<close>

theorem cacheable_setter_alternation_counterexample:
  "EVE_DL_OPTIMIZE example_config \<and> CmdDl example_context = [] \<and> (0xFF :: u8) \<noteq> 0x80 \<and>
   CmdDl (EVE_CoDl_colorA example_config 0x80
           (EVE_CoDl_colorA example_config 0xFF example_context)) = [COLOR_A 0x80]"
  by (simp add: EVE_CoDl_colorA_def example_config_def example_state_simps example_state_def)
     (simp add: example_context_def)

subsection \<open>Bitmap layout and size\<close>

text \<open>
  Claim C8. For every configuration and every input, \<open>EVE_CoDl_bitmapLayout\<close> appends
  exactly two words, \<open>BITMAP_LAYOUT_H(linestride >> 10, height >> 9)\<close> and then
  \<open>BITMAP_LAYOUT(format, linestride, height)\<close>, and \<open>EVE_CoDl_bitmapSize\<close> appends
  \<open>BITMAP_SIZE_H(width >> 9, height >> 9)\<close> and then
  \<open>BITMAP_SIZE(filter, wrapx, wrapy, width, height)\<close>; nothing else changes.
\<close>

theorem bitmap_layout_size_pairs:
  "EVE_CoDl_bitmapLayout cfg format linestride height phost =
     phost\<lparr>CmdDl := CmdDl phost @
       [BITMAP_LAYOUT_H (drop_bit 10 linestride) (drop_bit 9 height),
        BITMAP_LAYOUT format linestride height]\<rparr> \<and>
   EVE_CoDl_bitmapSize cfg flt wrapx wrapy width height phost =
     phost\<lparr>CmdDl := CmdDl phost @
       [BITMAP_SIZE_H (drop_bit 9 width) (drop_bit 9 height),
        BITMAP_SIZE flt wrapx wrapy width height]\<rparr>"
  by (simp add: EVE_CoDl_bitmapLayout_def EVE_CoDl_bitmapSize_def EVE_CoCmd_dl_def)

subsection \<open>End of a primitive\<close>

text \<open>
  Claim C6, as the code has it. With caching and explicit END both enabled,
  \<open>EVE_CoDl_end\<close> emits \<open>END\<close> exactly when a primitive is active and leaves no
  primitive active. With caching enabled and explicit END disabled it does nothing: the
  active primitive stays. With caching disabled it always emits \<open>END\<close> and changes
  nothing else.
\<close>

theorem end_primitive_by_switch:
  "(EVE_DL_OPTIMIZE cfg \<and> EVE_DL_END_PRIMITIVE cfg \<longrightarrow>
      (DlPrimitive phost \<noteq> 0 \<longrightarrow>
         EVE_CoDl_end cfg phost = phost\<lparr>DlPrimitive := 0, CmdDl := CmdDl phost @ [END]\<rparr>) \<and>
      (DlPrimitive phost = 0 \<longrightarrow> EVE_CoDl_end cfg phost = phost) \<and>
      DlPrimitive (EVE_CoDl_end cfg phost) = 0) \<and>
   (EVE_DL_OPTIMIZE cfg \<and> \<not> EVE_DL_END_PRIMITIVE cfg \<longrightarrow> EVE_CoDl_end cfg phost = phost) \<and>
   (\<not> EVE_DL_OPTIMIZE cfg \<longrightarrow>
      EVE_CoDl_end cfg phost = phost\<lparr>CmdDl := CmdDl phost @ [END]\<rparr>)"
  by (simp add: EVE_CoDl_end_def EVE_CoCmd_dl_def)

text \<open>
  The theorem at the sample context, for the three builds.
\<close>

theorem end_primitive_by_switch_witness:
  "EVE_CoDl_end example_config (example_context\<lparr>DlPrimitive := 2\<rparr>) =
     example_context\<lparr>DlPrimitive := 0, CmdDl := [END]\<rparr> \<and>
   EVE_CoDl_end example_config example_context = example_context \<and>
   EVE_CoDl_end (example_config\<lparr>EVE_DL_END_PRIMITIVE := False\<rparr>)
       (example_context\<lparr>DlPrimitive := 2\<rparr>) = example_context\<lparr>DlPrimitive := 2\<rparr> \<and>
   EVE_CoDl_end (example_config\<lparr>EVE_DL_OPTIMIZE := False, EVE_DL_END_PRIMITIVE := False\<rparr>)
       example_context = example_context\<lparr>CmdDl := [END]\<rparr>"
  using end_primitive_by_switch [of example_config "example_context\<lparr>DlPrimitive := 2\<rparr>"]
    end_primitive_by_switch [of example_config example_context]
    end_primitive_by_switch [of "example_config\<lparr>EVE_DL_END_PRIMITIVE := False\<rparr>"
      "example_context\<lparr>DlPrimitive := 2\<rparr>"]
    end_primitive_by_switch [of
      "example_config\<lparr>EVE_DL_OPTIMIZE := False, EVE_DL_END_PRIMITIVE := False\<rparr>" example_context]
  by (simp add: example_config_def example_context_def)

text \<open>
  Claim C6 as stated fails in two builds: with caching on and explicit END off the
  primitive 2 is still active after \<open>EVE_CoDl_end\<close>; with both switches off
  \<open>END\<close> is emitted although explicit END is disabled and no primitive is active.
\<close>

theorem end_primitive_counterexample:
  "DlPrimitive (EVE_CoDl_end (example_config\<lparr>EVE_DL_END_PRIMITIVE := False\<rparr>)
       (example_context\<lparr>DlPrimitive := 2\<rparr>)) = 2 \<and>
   CmdDl (EVE_CoDl_end
       (example_config\<lparr>EVE_DL_OPTIMIZE := False, EVE_DL_END_PRIMITIVE := False\<rparr>)
       example_context) = [END] \<and>
   DlPrimitive example_context = 0"
  by (simp add: EVE_CoDl_end_def EVE_CoCmd_dl_def example_config_def example_context_def)

subsection \<open>Scissor\<close>

text \<open>
  Claim C9, as the code has it. With \<open>EVE_DL_CACHE_SCISSOR\<close> enabled and the index in
  bounds, \<open>EVE_CoDl_scissorXY\<close> and \<open>EVE_CoDl_scissorSize\<close> skip a call whose
  arguments equal the cached rectangle only when \<open>EVE_DL_OPTIMIZE\<close> is enabled too;
  otherwise (general cache off, or different arguments) they emit the instruction and
  record the arguments in the active snapshot.
\<close>

theorem scissor_cache_needs_optimize:
  assumes "EVE_DL_CACHE_SCISSOR cfg" and "dl_state_in_bounds cfg phost"
  shows
    "(EVE_DL_OPTIMIZE cfg \<and> ScissorX (EVE_DL_STATE phost) = x \<and> ScissorY (EVE_DL_STATE phost) = y
        \<longrightarrow> EVE_CoDl_scissorXY cfg x y phost = phost) \<and>
     (\<not> EVE_DL_OPTIMIZE cfg \<or> ScissorX (EVE_DL_STATE phost) \<noteq> x \<or> ScissorY (EVE_DL_STATE phost) \<noteq> y
        \<longrightarrow> CmdDl (EVE_CoDl_scissorXY cfg x y phost) = CmdDl phost @ [SCISSOR_XY x y] \<and>
            ScissorX (EVE_DL_STATE (EVE_CoDl_scissorXY cfg x y phost)) = x \<and>
            ScissorY (EVE_DL_STATE (EVE_CoDl_scissorXY cfg x y phost)) = y) \<and>
     (EVE_DL_OPTIMIZE cfg \<and> ScissorWidth (EVE_DL_STATE phost) = w \<and>
        ScissorHeight (EVE_DL_STATE phost) = h
        \<longrightarrow> EVE_CoDl_scissorSize cfg w h phost = phost) \<and>
     (\<not> EVE_DL_OPTIMIZE cfg \<or> ScissorWidth (EVE_DL_STATE phost) \<noteq> w \<or>
        ScissorHeight (EVE_DL_STATE phost) \<noteq> h
        \<longrightarrow> CmdDl (EVE_CoDl_scissorSize cfg w h phost) = CmdDl phost @ [SCISSOR_SIZE w h] \<and>
            ScissorWidth (EVE_DL_STATE (EVE_CoDl_scissorSize cfg w h phost)) = w \<and>
            ScissorHeight (EVE_DL_STATE (EVE_CoDl_scissorSize cfg w h phost)) = h)"
proof -
  have b: "unat (DlStateIndex phost) < length (DlState phost)"
    using assms(2) by (rule in_boundsD)
  have xy: "(EVE_DL_OPTIMIZE cfg \<and> ScissorX (EVE_DL_STATE phost) = x \<and>
      ScissorY (EVE_DL_STATE phost) = y \<longrightarrow> EVE_CoDl_scissorXY cfg x y phost = phost) \<and>
     (\<not> EVE_DL_OPTIMIZE cfg \<or> ScissorX (EVE_DL_STATE phost) \<noteq> x \<or> ScissorY (EVE_DL_STATE phost) \<noteq> y
        \<longrightarrow> CmdDl (EVE_CoDl_scissorXY cfg x y phost) = CmdDl phost @ [SCISSOR_XY x y] \<and>
            ScissorX (EVE_DL_STATE (EVE_CoDl_scissorXY cfg x y phost)) = x \<and>
            ScissorY (EVE_DL_STATE (EVE_CoDl_scissorXY cfg x y phost)) = y)"
    using assms(1) b by (simp add: EVE_CoDl_scissorXY_def Let_def)
  have sz: "(EVE_DL_OPTIMIZE cfg \<and> ScissorWidth (EVE_DL_STATE phost) = w \<and>
        ScissorHeight (EVE_DL_STATE phost) = h
        \<longrightarrow> EVE_CoDl_scissorSize cfg w h phost = phost) \<and>
     (\<not> EVE_DL_OPTIMIZE cfg \<or> ScissorWidth (EVE_DL_STATE phost) \<noteq> w \<or>
        ScissorHeight (EVE_DL_STATE phost) \<noteq> h
        \<longrightarrow> CmdDl (EVE_CoDl_scissorSize cfg w h phost) = CmdDl phost @ [SCISSOR_SIZE w h] \<and>
            ScissorWidth (EVE_DL_STATE (EVE_CoDl_scissorSize cfg w h phost)) = w \<and>
            ScissorHeight (EVE_DL_STATE (EVE_CoDl_scissorSize cfg w h phost)) = h)"
    using assms(1) b by (simp add: EVE_CoDl_scissorSize_def Let_def)
  show ?thesis using xy sz by blast
qed

lemma example_noopt_in_bounds:
  "dl_state_in_bounds (example_config\<lparr>EVE_DL_OPTIMIZE := False\<rparr>) example_context"
  by (simp add: dl_state_in_bounds_def example_config_def example_context_def
      EVE_DL_STATE_STACK_SIZE_def)

text \<open>
  The theorem at the sample context, with the general cache on and off.
\<close>

theorem scissor_cache_needs_optimize_witness:
  "EVE_DL_CACHE_SCISSOR example_config \<and> dl_state_in_bounds example_config example_context \<and>
   EVE_CoDl_scissorXY example_config 0 0 example_context = example_context \<and>
   CmdDl (EVE_CoDl_scissorSize example_config 100 50 example_context) = [SCISSOR_SIZE 100 50] \<and>
   EVE_CoDl_scissorSize example_config 480 272 example_context = example_context \<and>
   CmdDl (EVE_CoDl_scissorXY (example_config\<lparr>EVE_DL_OPTIMIZE := False\<rparr>) 0 0 example_context) =
     [SCISSOR_XY 0 0]"
proof -
  have c: "EVE_DL_CACHE_SCISSOR example_config" by (simp add: example_config_def)
  have c': "EVE_DL_CACHE_SCISSOR (example_config\<lparr>EVE_DL_OPTIMIZE := False\<rparr>)"
    by (simp add: example_config_def)
  have o: "EVE_DL_OPTIMIZE example_config" by (simp add: example_config_def)
  have o': "\<not> EVE_DL_OPTIMIZE (example_config\<lparr>EVE_DL_OPTIMIZE := False\<rparr>)" by simp
  have e: "CmdDl example_context = []" by (simp add: example_context_def)
  have s: "ScissorX example_state = 0" "ScissorY example_state = 0"
    "ScissorWidth example_state = 480" "ScissorHeight example_state = 272"
    by (simp_all add: example_state_def)
  show ?thesis
    using scissor_cache_needs_optimize [OF c example_in_bounds, of 0 0 480 272]
      scissor_cache_needs_optimize [OF c example_in_bounds, of 0 0 100 50]
      scissor_cache_needs_optimize [OF c' example_noopt_in_bounds, of 0 0 480 272]
      c o o' e s example_in_bounds
    by (simp add: example_state_simps)
qed

text \<open>
  Claim C9 as stated fails with \<open>EVE_DL_CACHE_SCISSOR\<close> on and \<open>EVE_DL_OPTIMIZE\<close>
  off: \<open>scissorXY(0, 0)\<close> on a cached position \<open>(0, 0)\<close> still emits its word.
\<close>

theorem scissor_cache_counterexample:
  "EVE_DL_CACHE_SCISSOR (example_config\<lparr>EVE_DL_OPTIMIZE := False\<rparr>) \<and>
   ScissorX (EVE_DL_STATE example_context) = 0 \<and> ScissorY (EVE_DL_STATE example_context) = 0 \<and>
   CmdDl example_context = [] \<and>
   CmdDl (EVE_CoDl_scissorXY (example_config\<lparr>EVE_DL_OPTIMIZE := False\<rparr>) 0 0 example_context) =
     [SCISSOR_XY 0 0]"
  by (simp add: EVE_CoDl_scissorXY_def Let_def example_config_def example_state_simps
      example_state_def)
     (simp add: example_context_def)

subsection \<open>Begin of a primitive\<close>

lemma begin_emits:
  "EVE_DL_OPTIMIZE cfg \<Longrightarrow> prim \<noteq> effective_primitive cfg phost \<Longrightarrow>
     EVE_CoDl_begin cfg prim phost = phost\<lparr>DlPrimitive := prim, CmdDl := CmdDl phost @ [BEGIN prim]\<rparr>"
  by (simp add: EVE_CoDl_begin_def effective_primitive_def is_strip_def EVE_CoCmd_dl_def Let_def)

lemma begin_skips:
  "EVE_DL_OPTIMIZE cfg \<Longrightarrow> prim = effective_primitive cfg phost \<Longrightarrow>
     EVE_CoDl_begin cfg prim phost = phost"
  by (simp add: EVE_CoDl_begin_def effective_primitive_def is_strip_def Let_def)

lemma strip_differs:
  "is_strip cfg prim \<Longrightarrow> prim \<noteq> 0 \<Longrightarrow> prim \<noteq> effective_primitive cfg phost"
  by (auto simp: effective_primitive_def)

lemma effective_after_begin:
  "effective_primitive cfg (phost\<lparr>DlPrimitive := prim, CmdDl := ws\<rparr>) =
     (if is_strip cfg prim then 0 else prim)"
  by (simp add: effective_primitive_def)

text \<open>
  Claim C5, as the code has it. With caching enabled, \<open>EVE_CoDl_begin\<close> compares its
  argument with the effective primitive (none when a strip is active): when they differ it
  emits \<open>BEGIN\<close> and records the argument, when they are equal it does nothing.
  Hence two calls in a row for a strip primitive with a non-zero code emit two
  \<open>BEGIN\<close> words; two calls in a row for a primitive that is not a strip emit exactly
  one when it differs from the effective primitive beforehand, and none otherwise.
\<close>

theorem begin_strip_restart:
  assumes "EVE_DL_OPTIMIZE cfg"
  shows
    "(prim \<noteq> effective_primitive cfg phost \<longrightarrow>
        EVE_CoDl_begin cfg prim phost =
          phost\<lparr>DlPrimitive := prim, CmdDl := CmdDl phost @ [BEGIN prim]\<rparr>) \<and>
     (prim = effective_primitive cfg phost \<longrightarrow> EVE_CoDl_begin cfg prim phost = phost) \<and>
     (is_strip cfg prim \<and> prim \<noteq> 0 \<longrightarrow>
        CmdDl (EVE_CoDl_begin cfg prim (EVE_CoDl_begin cfg prim phost)) =
          CmdDl phost @ [BEGIN prim, BEGIN prim]) \<and>
     (\<not> is_strip cfg prim \<and> prim \<noteq> effective_primitive cfg phost \<longrightarrow>
        CmdDl (EVE_CoDl_begin cfg prim (EVE_CoDl_begin cfg prim phost)) =
          CmdDl phost @ [BEGIN prim]) \<and>
     (\<not> is_strip cfg prim \<and> prim = effective_primitive cfg phost \<longrightarrow>
        EVE_CoDl_begin cfg prim (EVE_CoDl_begin cfg prim phost) = phost)"
proof -
  let ?p1 = "phost\<lparr>DlPrimitive := prim, CmdDl := CmdDl phost @ [BEGIN prim]\<rparr>"
  have strip: "is_strip cfg prim \<and> prim \<noteq> 0 \<longrightarrow>
      CmdDl (EVE_CoDl_begin cfg prim (EVE_CoDl_begin cfg prim phost)) =
        CmdDl phost @ [BEGIN prim, BEGIN prim]"
  proof
    assume s: "is_strip cfg prim \<and> prim \<noteq> 0"
    then have d: "prim \<noteq> effective_primitive cfg phost" by (simp add: strip_differs)
    have d1: "prim \<noteq> effective_primitive cfg ?p1" using s by (simp add: strip_differs)
    have "EVE_CoDl_begin cfg prim phost = ?p1" using assms d by (rule begin_emits)
    then show "CmdDl (EVE_CoDl_begin cfg prim (EVE_CoDl_begin cfg prim phost)) =
        CmdDl phost @ [BEGIN prim, BEGIN prim]"
      using begin_emits [OF assms d1] by simp
  qed
  have once: "\<not> is_strip cfg prim \<and> prim \<noteq> effective_primitive cfg phost \<longrightarrow>
      CmdDl (EVE_CoDl_begin cfg prim (EVE_CoDl_begin cfg prim phost)) = CmdDl phost @ [BEGIN prim]"
  proof
    assume s: "\<not> is_strip cfg prim \<and> prim \<noteq> effective_primitive cfg phost"
    then have e1: "prim = effective_primitive cfg ?p1" by (simp add: effective_after_begin)
    have "EVE_CoDl_begin cfg prim phost = ?p1" using assms s by (simp add: begin_emits)
    then show "CmdDl (EVE_CoDl_begin cfg prim (EVE_CoDl_begin cfg prim phost)) =
        CmdDl phost @ [BEGIN prim]"
      using begin_skips [OF assms e1] by simp
  qed
  have none: "\<not> is_strip cfg prim \<and> prim = effective_primitive cfg phost \<longrightarrow>
      EVE_CoDl_begin cfg prim (EVE_CoDl_begin cfg prim phost) = phost"
  proof
    assume s: "\<not> is_strip cfg prim \<and> prim = effective_primitive cfg phost"
    then have "EVE_CoDl_begin cfg prim phost = phost" using assms by (simp add: begin_skips)
    then show "EVE_CoDl_begin cfg prim (EVE_CoDl_begin cfg prim phost) = phost" by simp
  qed
  show ?thesis using begin_emits [OF assms] begin_skips [OF assms] strip once none by blast
qed

text \<open>
  The theorem at the sample context: \<open>LINE_STRIP\<close> (code 4) twice, primitive 2 twice
  with no primitive active, and primitive 2 twice when it is already active.
\<close>

theorem begin_strip_restart_witness:
  "EVE_DL_OPTIMIZE example_config \<and>
   is_strip example_config (LINE_STRIP example_config) \<and> LINE_STRIP example_config \<noteq> 0 \<and>
   \<not> is_strip example_config 2 \<and> 2 \<noteq> effective_primitive example_config example_context \<and>
   CmdDl (EVE_CoDl_begin example_config (LINE_STRIP example_config)
           (EVE_CoDl_begin example_config (LINE_STRIP example_config) example_context)) =
     [BEGIN 4, BEGIN 4] \<and>
   CmdDl (EVE_CoDl_begin example_config 2 (EVE_CoDl_begin example_config 2 example_context)) =
     [BEGIN 2] \<and>
   EVE_CoDl_begin example_config 2 (EVE_CoDl_begin example_config 2
       (example_context\<lparr>DlPrimitive := 2\<rparr>)) = example_context\<lparr>DlPrimitive := 2\<rparr>"
proof -
  have o: "EVE_DL_OPTIMIZE example_config" by (simp add: example_config_def)
  have s: "is_strip example_config (LINE_STRIP example_config)" by (simp add: is_strip_def)
  have l: "LINE_STRIP example_config = 4" by (simp add: example_config_def)
  have n: "\<not> is_strip example_config 2" by (simp add: is_strip_def example_config_def)
  have e: "effective_primitive example_config example_context = 0"
    by (simp add: effective_primitive_def is_strip_def example_config_def example_context_def)
  have e2: "effective_primitive example_config (example_context\<lparr>DlPrimitive := 2\<rparr>) = 2"
    by (simp add: effective_primitive_def is_strip_def example_config_def)
  have c: "CmdDl example_context = []" by (simp add: example_context_def)
  have w1: "CmdDl (EVE_CoDl_begin example_config (LINE_STRIP example_config)
           (EVE_CoDl_begin example_config (LINE_STRIP example_config) example_context)) =
     [BEGIN 4, BEGIN 4]"
    using begin_strip_restart [OF o, of "LINE_STRIP example_config" example_context,
        THEN conjunct2, THEN conjunct2, THEN conjunct1] s l c
    by simp
  have w2: "CmdDl (EVE_CoDl_begin example_config 2
      (EVE_CoDl_begin example_config 2 example_context)) = [BEGIN 2]"
    using begin_strip_restart [OF o, of 2 example_context,
        THEN conjunct2, THEN conjunct2, THEN conjunct2, THEN conjunct1] n e c
    by simp
  have w3: "EVE_CoDl_begin example_config 2 (EVE_CoDl_begin example_config 2
       (example_context\<lparr>DlPrimitive := 2\<rparr>)) = example_context\<lparr>DlPrimitive := 2\<rparr>"
    using begin_strip_restart [OF o, of 2 "example_context\<lparr>DlPrimitive := 2\<rparr>",
        THEN conjunct2, THEN conjunct2, THEN conjunct2, THEN conjunct2] n e2
    by simp
  show ?thesis using o s l n e w1 w2 w3 by simp
qed

text \<open>
  Claim C5 as stated fails when the primitive is already active: two calls
  \<open>begin(2)\<close> with primitive 2 active emit no word, not one.
\<close>

theorem begin_twice_counterexample:
  "EVE_DL_OPTIMIZE example_config \<and> \<not> is_strip example_config 2 \<and>
   CmdDl (example_context\<lparr>DlPrimitive := 2\<rparr>) = [] \<and>
   CmdDl (EVE_CoDl_begin example_config 2 (EVE_CoDl_begin example_config 2
            (example_context\<lparr>DlPrimitive := 2\<rparr>))) = []"
  by (simp add: EVE_CoDl_begin_def is_strip_def Let_def example_config_def)
     (simp add: example_context_def)

subsection \<open>Bitmap transform\<close>

lemma coefficient_emits_one:
  assumes "f \<in> bitmapTransform_coefficient cfg"
  shows "\<exists>w. CmdDl (f phost) = CmdDl phost @ [w]"
  using assms
  by (cases rule: bitmapTransform_coefficient.cases)
     (simp_all add: EVE_CoDl_bitmapTransformA_def EVE_CoDl_bitmapTransformA_ex_def
       EVE_CoDl_bitmapTransformB_def EVE_CoDl_bitmapTransformB_ex_def
       EVE_CoDl_bitmapTransformC_def EVE_CoDl_bitmapTransformD_def
       EVE_CoDl_bitmapTransformD_ex_def EVE_CoDl_bitmapTransformE_def
       EVE_CoDl_bitmapTransformE_ex_def EVE_CoDl_bitmapTransformF_def Let_def)

lemma coefficient_clears:
  assumes "f \<in> bitmapTransform_coefficient cfg" and "EVE_DL_OPTIMIZE cfg"
    and "unat (DlStateIndex phost) < length (DlState phost)"
  shows "BitmapTransform (EVE_DL_STATE (f phost)) \<and>
         DlStateIndex (f phost) = DlStateIndex phost \<and>
         length (DlState (f phost)) = length (DlState phost)"
  using assms
  by (cases rule: bitmapTransform_coefficient.cases)
     (simp_all add: EVE_CoDl_bitmapTransformA_def EVE_CoDl_bitmapTransformA_ex_def
       EVE_CoDl_bitmapTransformB_def EVE_CoDl_bitmapTransformB_ex_def
       EVE_CoDl_bitmapTransformC_def EVE_CoDl_bitmapTransformD_def
       EVE_CoDl_bitmapTransformD_ex_def EVE_CoDl_bitmapTransformE_def
       EVE_CoDl_bitmapTransformE_ex_def EVE_CoDl_bitmapTransformF_def Let_def)

lemma identity_body_words:
  "CmdDl (bitmapTransform_identity_body cfg phost) = CmdDl phost @ identity_transform_words"
  by (simp add: bitmapTransform_identity_body_def identity_transform_words_def Let_def
       EVE_CoDl_bitmapTransformA_ex_def EVE_CoDl_bitmapTransformB_ex_def
       EVE_CoDl_bitmapTransformC_def EVE_CoDl_bitmapTransformD_ex_def
       EVE_CoDl_bitmapTransformE_ex_def EVE_CoDl_bitmapTransformF_def)

lemma identity_body_frame:
  "DlStateIndex (bitmapTransform_identity_body cfg phost) = DlStateIndex phost \<and>
   length (DlState (bitmapTransform_identity_body cfg phost)) = length (DlState phost)"
  by (simp add: bitmapTransform_identity_body_def Let_def
       EVE_CoDl_bitmapTransformA_ex_def EVE_CoDl_bitmapTransformB_ex_def
       EVE_CoDl_bitmapTransformC_def EVE_CoDl_bitmapTransformD_ex_def
       EVE_CoDl_bitmapTransformE_ex_def EVE_CoDl_bitmapTransformF_def)

lemma identity_emits:
  assumes "EVE_DL_OPTIMIZE cfg" and "unat (DlStateIndex phost) < length (DlState phost)"
    and "BitmapTransform (EVE_DL_STATE phost)"
  shows "CmdDl (EVE_CoDl_bitmapTransform_identity cfg phost) =
           CmdDl phost @ identity_transform_words \<and>
         \<not> BitmapTransform (EVE_DL_STATE (EVE_CoDl_bitmapTransform_identity cfg phost))"
  using assms
  by (simp add: EVE_CoDl_bitmapTransform_identity_def Let_def identity_body_words
      identity_body_frame)

lemma identity_skips:
  assumes "EVE_DL_OPTIMIZE cfg" and "\<not> BitmapTransform (EVE_DL_STATE phost)"
  shows "EVE_CoDl_bitmapTransform_identity cfg phost = phost"
  using assms by (simp add: EVE_CoDl_bitmapTransform_identity_def)

lemma reset_is_identity:
  assumes "DlState phost \<noteq> []"
  shows "\<not> BitmapTransform (EVE_DL_STATE (EVE_CoDlImpl_resetDlState cfg defaults phost))"
  using assms by (simp add: EVE_CoDlImpl_resetDlState_def EVE_DL_STATE_def)

text \<open>
  Claim C7. With caching enabled and the index in bounds,
  \<open>EVE_CoDl_bitmapTransform_identity\<close> does nothing when the transform is recorded as
  the identity, in particular right after the reset; otherwise it emits the six words
  A = 256, B = 0, C = 0, D = 0, E = 256, F = 0 in this order and records the identity.
  Every coefficient setter clears the record, so the identity call after any one of them
  emits the six words and restores the record.
\<close>

theorem identity_transform_skip:
  assumes "EVE_DL_OPTIMIZE cfg" and "dl_state_in_bounds cfg phost"
  shows
    "(bitmapTransformIsIdentity phost \<longrightarrow>
        EVE_CoDl_bitmapTransform_identity cfg phost = phost) \<and>
     (\<not> bitmapTransformIsIdentity phost \<longrightarrow>
        CmdDl (EVE_CoDl_bitmapTransform_identity cfg phost) =
          CmdDl phost @ identity_transform_words \<and>
        bitmapTransformIsIdentity (EVE_CoDl_bitmapTransform_identity cfg phost)) \<and>
     (\<forall>f \<in> bitmapTransform_coefficient cfg.
        \<not> bitmapTransformIsIdentity (f phost) \<and>
        CmdDl (EVE_CoDl_bitmapTransform_identity cfg (f phost)) =
          CmdDl (f phost) @ identity_transform_words \<and>
        bitmapTransformIsIdentity (EVE_CoDl_bitmapTransform_identity cfg (f phost))) \<and>
     bitmapTransformIsIdentity (EVE_CoDlImpl_resetDlState cfg defaults phost) \<and>
     EVE_CoDl_bitmapTransform_identity cfg (EVE_CoDlImpl_resetDlState cfg defaults phost) =
       EVE_CoDlImpl_resetDlState cfg defaults phost"
proof -
  have b: "unat (DlStateIndex phost) < length (DlState phost)"
    using assms(2) by (rule in_boundsD)
  have ne: "DlState phost \<noteq> []" using b by auto
  have skip: "bitmapTransformIsIdentity phost \<longrightarrow>
      EVE_CoDl_bitmapTransform_identity cfg phost = phost"
    using identity_skips [OF assms(1)] by (simp add: bitmapTransformIsIdentity_def)
  have emit: "\<not> bitmapTransformIsIdentity phost \<longrightarrow>
      CmdDl (EVE_CoDl_bitmapTransform_identity cfg phost) =
        CmdDl phost @ identity_transform_words \<and>
      bitmapTransformIsIdentity (EVE_CoDl_bitmapTransform_identity cfg phost)"
    using identity_emits [OF assms(1) b] by (simp add: bitmapTransformIsIdentity_def)
  have coef: "\<forall>f \<in> bitmapTransform_coefficient cfg.
      \<not> bitmapTransformIsIdentity (f phost) \<and>
      CmdDl (EVE_CoDl_bitmapTransform_identity cfg (f phost)) =
        CmdDl (f phost) @ identity_transform_words \<and>
      bitmapTransformIsIdentity (EVE_CoDl_bitmapTransform_identity cfg (f phost))"
  proof
    fix f assume f: "f \<in> bitmapTransform_coefficient cfg"
    have c: "BitmapTransform (EVE_DL_STATE (f phost))"
      and b': "unat (DlStateIndex (f phost)) < length (DlState (f phost))"
      using coefficient_clears [OF f assms(1) b] b by simp_all
    show "\<not> bitmapTransformIsIdentity (f phost) \<and>
      CmdDl (EVE_CoDl_bitmapTransform_identity cfg (f phost)) =
        CmdDl (f phost) @ identity_transform_words \<and>
      bitmapTransformIsIdentity (EVE_CoDl_bitmapTransform_identity cfg (f phost))"
      using c identity_emits [OF assms(1) b' c] by (simp add: bitmapTransformIsIdentity_def)
  qed
  have r: "bitmapTransformIsIdentity (EVE_CoDlImpl_resetDlState cfg defaults phost)"
    using reset_is_identity [OF ne] by (simp add: bitmapTransformIsIdentity_def)
  have r2: "EVE_CoDl_bitmapTransform_identity cfg (EVE_CoDlImpl_resetDlState cfg defaults phost) =
       EVE_CoDlImpl_resetDlState cfg defaults phost"
    using identity_skips [OF assms(1) reset_is_identity [OF ne]] .
  show ?thesis using skip emit coef r r2 by blast
qed

text \<open>
  The theorem at the sample context, with \<open>EVE_CoDl_bitmapTransformA\<close> as the setter,
  and the identity call after a reset that follows the setter.
\<close>

theorem identity_transform_skip_witness:
  "EVE_DL_OPTIMIZE example_config \<and> dl_state_in_bounds example_config example_context \<and>
   bitmapTransformIsIdentity example_context \<and>
   EVE_CoDl_bitmapTransformA example_config 5 \<in> bitmapTransform_coefficient example_config \<and>
   EVE_CoDl_bitmapTransform_identity example_config example_context = example_context \<and>
   \<not> bitmapTransformIsIdentity (EVE_CoDl_bitmapTransformA example_config 5 example_context) \<and>
   CmdDl (EVE_CoDl_bitmapTransform_identity example_config
           (EVE_CoDl_bitmapTransformA example_config 5 example_context)) =
     [BITMAP_TRANSFORM_A 5,
      BITMAP_TRANSFORM_A_EXT False 256, BITMAP_TRANSFORM_B_EXT False 0, BITMAP_TRANSFORM_C 0,
      BITMAP_TRANSFORM_D_EXT False 0, BITMAP_TRANSFORM_E_EXT False 256, BITMAP_TRANSFORM_F 0] \<and>
   bitmapTransformIsIdentity (EVE_CoDl_bitmapTransform_identity example_config
           (EVE_CoDl_bitmapTransformA example_config 5 example_context)) \<and>
   CmdDl (EVE_CoDl_bitmapTransform_identity example_config
           (EVE_CoDlImpl_resetDlState example_config example_state
             (EVE_CoDl_bitmapTransformA example_config 5 example_context))) =
     [BITMAP_TRANSFORM_A 5]"
proof -
  have o: "EVE_DL_OPTIMIZE example_config" by (simp add: example_config_def)
  have i: "bitmapTransformIsIdentity example_context"
    by (simp add: bitmapTransformIsIdentity_def example_state_simps example_state_def)
  have m: "EVE_CoDl_bitmapTransformA example_config 5 \<in> bitmapTransform_coefficient example_config"
    by (rule coef_A)
  have c: "CmdDl (EVE_CoDl_bitmapTransformA example_config 5 example_context) =
      [BITMAP_TRANSFORM_A 5]"
    by (simp add: EVE_CoDl_bitmapTransformA_def Let_def o) (simp add: example_context_def)
  note t = identity_transform_skip [OF o example_in_bounds, of example_state]
  have w1: "EVE_CoDl_bitmapTransform_identity example_config example_context = example_context"
    using t [THEN conjunct1] i by simp
  have w2: "\<not> bitmapTransformIsIdentity (EVE_CoDl_bitmapTransformA example_config 5 example_context) \<and>
        CmdDl (EVE_CoDl_bitmapTransform_identity example_config
           (EVE_CoDl_bitmapTransformA example_config 5 example_context)) =
          CmdDl (EVE_CoDl_bitmapTransformA example_config 5 example_context) @
            identity_transform_words \<and>
        bitmapTransformIsIdentity (EVE_CoDl_bitmapTransform_identity example_config
           (EVE_CoDl_bitmapTransformA example_config 5 example_context))"
    using t [THEN conjunct2, THEN conjunct2, THEN conjunct1] m by blast
  let ?p = "EVE_CoDl_bitmapTransformA example_config 5 example_context"
  have b: "dl_state_in_bounds example_config ?p"
    using example_in_bounds
    by (simp add: dl_state_in_bounds_def EVE_CoDl_bitmapTransformA_def Let_def)
  have "EVE_CoDl_bitmapTransform_identity example_config
          (EVE_CoDlImpl_resetDlState example_config example_state ?p) =
        EVE_CoDlImpl_resetDlState example_config example_state ?p"
    using identity_transform_skip [OF o b, of example_state] by blast
  then have w3: "CmdDl (EVE_CoDl_bitmapTransform_identity example_config
          (EVE_CoDlImpl_resetDlState example_config example_state ?p)) = [BITMAP_TRANSFORM_A 5]"
    using c by (simp add: EVE_CoDlImpl_resetDlState_def)
  show ?thesis using o example_in_bounds i m w1 w2 w3 c
    by (simp add: identity_transform_words_def)
qed

subsection \<open>Vertex precision\<close>

lemma half_16: "sint (signed_drop_bit 1 (x :: i16)) = sint x div 2"
  by (simp add: sint_signed_drop_bit_eq drop_bit_eq_div)

lemma vertexFormat_words:
  "CmdDl (EVE_CoDl_vertexFormat cfg frac phost) =
     CmdDl phost @ (if EVE_DL_OPTIMIZE cfg \<and> VertexFormat (EVE_DL_STATE phost) = frac
                    then [] else [VERTEX_FORMAT frac])"
  by (auto simp: EVE_CoDl_vertexFormat_def Let_def)

text \<open>
  Claim C4, as the code has it. \<open>EVE_CoDl_vertex2f_4\<close> falls back exactly when
  \<open>x\<close> or \<open>y\<close> is greater than \<open>EVE_VERTEX2F_MAX\<close>: it then calls the cacheable
  setter with format 3 and emits the vertex with both coordinates shifted right by one
  (the signed halves, rounded down). Otherwise it calls the setter with format 4 and
  emits the vertex unchanged. \<open>(20000, 0)\<close> gives format 3 and the vertex
  \<open>(10000, 0)\<close>; \<open>(100, 100)\<close> gives format 4 and the vertex \<open>(100, 100)\<close>.
\<close>

theorem vertex2f_4_fallback:
  "(sint x > EVE_VERTEX2F_MAX \<or> sint y > EVE_VERTEX2F_MAX \<longrightarrow>
      EVE_CoDl_vertex2f_4 cfg x y phost =
        EVE_CoDl_vertex2f cfg (signed_drop_bit 1 x) (signed_drop_bit 1 y)
          (EVE_CoDl_vertexFormat cfg 3 phost) \<and>
      CmdDl (EVE_CoDl_vertex2f_4 cfg x y phost) =
        CmdDl phost @
        (if EVE_DL_OPTIMIZE cfg \<and> VertexFormat (EVE_DL_STATE phost) = 3
         then [] else [VERTEX_FORMAT 3]) @
        [VERTEX2F (signed_drop_bit 1 x) (signed_drop_bit 1 y)]) \<and>
   (sint x \<le> EVE_VERTEX2F_MAX \<and> sint y \<le> EVE_VERTEX2F_MAX \<longrightarrow>
      EVE_CoDl_vertex2f_4 cfg x y phost =
        EVE_CoDl_vertex2f cfg x y (EVE_CoDl_vertexFormat cfg 4 phost) \<and>
      CmdDl (EVE_CoDl_vertex2f_4 cfg x y phost) =
        CmdDl phost @
        (if EVE_DL_OPTIMIZE cfg \<and> VertexFormat (EVE_DL_STATE phost) = 4
         then [] else [VERTEX_FORMAT 4]) @
        [VERTEX2F x y]) \<and>
   sint (signed_drop_bit 1 x) = sint x div 2 \<and>
   sint (signed_drop_bit 1 y) = sint y div 2 \<and>
   EVE_CoDl_vertex2f_4 cfg 20000 0 phost =
     EVE_CoDl_vertex2f cfg 10000 0 (EVE_CoDl_vertexFormat cfg 3 phost) \<and>
   EVE_CoDl_vertex2f_4 cfg 100 100 phost =
     EVE_CoDl_vertex2f cfg 100 100 (EVE_CoDl_vertexFormat cfg 4 phost)"
proof -
  have fb: "sint x > EVE_VERTEX2F_MAX \<or> sint y > EVE_VERTEX2F_MAX \<longrightarrow>
      EVE_CoDl_vertex2f_4 cfg x y phost =
        EVE_CoDl_vertex2f cfg (signed_drop_bit 1 x) (signed_drop_bit 1 y)
          (EVE_CoDl_vertexFormat cfg 3 phost) \<and>
      CmdDl (EVE_CoDl_vertex2f_4 cfg x y phost) =
        CmdDl phost @
        (if EVE_DL_OPTIMIZE cfg \<and> VertexFormat (EVE_DL_STATE phost) = 3
         then [] else [VERTEX_FORMAT 3]) @
        [VERTEX2F (signed_drop_bit 1 x) (signed_drop_bit 1 y)]"
    by (simp add: EVE_CoDl_vertex2f_4_def EVE_CoDl_vertex2f_def vertexFormat_words)
  have direct: "sint x \<le> EVE_VERTEX2F_MAX \<and> sint y \<le> EVE_VERTEX2F_MAX \<longrightarrow>
      EVE_CoDl_vertex2f_4 cfg x y phost =
        EVE_CoDl_vertex2f cfg x y (EVE_CoDl_vertexFormat cfg 4 phost) \<and>
      CmdDl (EVE_CoDl_vertex2f_4 cfg x y phost) =
        CmdDl phost @
        (if EVE_DL_OPTIMIZE cfg \<and> VertexFormat (EVE_DL_STATE phost) = 4
         then [] else [VERTEX_FORMAT 4]) @
        [VERTEX2F x y]"
    by (simp add: EVE_CoDl_vertex2f_4_def EVE_CoDl_vertex2f_def vertexFormat_words)
  have big: "EVE_CoDl_vertex2f_4 cfg 20000 0 phost =
     EVE_CoDl_vertex2f cfg 10000 0 (EVE_CoDl_vertexFormat cfg 3 phost)"
    by (simp add: EVE_CoDl_vertex2f_4_def EVE_VERTEX2F_MAX_def)
  have small: "EVE_CoDl_vertex2f_4 cfg 100 100 phost =
     EVE_CoDl_vertex2f cfg 100 100 (EVE_CoDl_vertexFormat cfg 4 phost)"
    by (simp add: EVE_CoDl_vertex2f_4_def EVE_VERTEX2F_MAX_def)
  show ?thesis using fb direct big small half_16 [of x] half_16 [of y] by blast
qed

text \<open>
  The theorem at the sample context (vertex format 4): both branches, and the format-4
  setter emitting again after a fallback.
\<close>

theorem vertex2f_4_fallback_witness:
  "sint (20000 :: i16) > EVE_VERTEX2F_MAX \<and>
   sint (100 :: i16) \<le> EVE_VERTEX2F_MAX \<and>
   CmdDl (EVE_CoDl_vertex2f_4 example_config 20000 0 example_context) =
     [VERTEX_FORMAT 3, VERTEX2F 10000 0] \<and>
   CmdDl (EVE_CoDl_vertex2f_4 example_config 100 100
           (EVE_CoDl_vertex2f_4 example_config 20000 0 example_context)) =
     [VERTEX_FORMAT 3, VERTEX2F 10000 0, VERTEX_FORMAT 4, VERTEX2F 100 100] \<and>
   CmdDl (EVE_CoDl_vertex2f_4 example_config 100 100 example_context) = [VERTEX2F 100 100]"
proof -
  let ?p1 = "EVE_CoDl_vertex2f_4 example_config 20000 0 example_context"
  have o: "EVE_DL_OPTIMIZE example_config" by (simp add: example_config_def)
  have g: "sint (20000 :: i16) > EVE_VERTEX2F_MAX" by (simp add: EVE_VERTEX2F_MAX_def)
  have l: "sint (100 :: i16) \<le> EVE_VERTEX2F_MAX" by (simp add: EVE_VERTEX2F_MAX_def)
  have z: "sint (0 :: i16) \<le> EVE_VERTEX2F_MAX" by (simp add: EVE_VERTEX2F_MAX_def)
  have h: "signed_drop_bit 1 (20000 :: i16) = 10000" "signed_drop_bit 1 (0 :: i16) = 0"
    by (rule signed_word_eqI, simp add: half_16) simp
  have e: "CmdDl example_context = []" by (simp add: example_context_def)
  have f: "VertexFormat (EVE_DL_STATE example_context) = 4"
    by (simp add: example_state_simps example_state_def)
  have w1: "CmdDl ?p1 = [VERTEX_FORMAT 3, VERTEX2F 10000 0]"
    using vertex2f_4_fallback [of 20000 0 example_config example_context,
        THEN conjunct1, THEN mp, THEN conjunct2] g h e f by simp
  have f1: "VertexFormat (EVE_DL_STATE ?p1) = 3"
    using g example_in_bounds [THEN in_boundsD]
    by (simp add: EVE_CoDl_vertex2f_4_def EVE_CoDl_vertex2f_def EVE_CoDl_vertexFormat_def
        Let_def o f)
  have w2: "CmdDl (EVE_CoDl_vertex2f_4 example_config 100 100 ?p1) =
      [VERTEX_FORMAT 3, VERTEX2F 10000 0, VERTEX_FORMAT 4, VERTEX2F 100 100]"
    using vertex2f_4_fallback [of 100 100 example_config ?p1,
        THEN conjunct2, THEN conjunct1, THEN mp, THEN conjunct2] l w1 f1 by simp
  have w3: "CmdDl (EVE_CoDl_vertex2f_4 example_config 100 100 example_context) =
      [VERTEX2F 100 100]"
    using vertex2f_4_fallback [of 100 100 example_config example_context,
        THEN conjunct2, THEN conjunct1, THEN mp, THEN conjunct2] l e f o by simp
  show ?thesis using g l w1 w2 w3 by simp
qed

text \<open>
  Claim C4 as stated fails below the minimum: \<open>x = -20000\<close> is less than
  \<open>EVE_VERTEX2F_MIN\<close>, yet the call keeps format 4 and emits the vertex unchanged.
\<close>

theorem vertex2f_4_negative_counterexample:
  "sint (- 20000 :: i16) < EVE_VERTEX2F_MIN \<and>
   EVE_CoDl_vertex2f_4 example_config (- 20000) 0 example_context =
     example_context\<lparr>CmdDl := [VERTEX2F (- 20000) 0]\<rparr> \<and>
   VertexFormat (EVE_DL_STATE example_context) = 4"
  by (simp add: EVE_CoDl_vertex2f_4_def EVE_CoDl_vertex2f_def EVE_CoDl_vertexFormat_def
      EVE_VERTEX2F_MAX_def EVE_VERTEX2F_MIN_def example_state_simps example_state_def
      example_config_def EVE_CoCmd_dl_def)
     (simp add: example_context_def)

subsection \<open>Context stack\<close>

lemmas EVE_CoDl_defs =
  EVE_CoDl_display_def EVE_CoDl_vertex2f_def EVE_CoDl_vertex2ii_def EVE_CoDl_bitmapSource_def
  EVE_CoDl_bitmapSource_ex_def EVE_CoDl_clearColorRgb_ex_def EVE_CoDl_clearColorRgb_def
  EVE_CoDl_clearColorA_def EVE_CoDl_clearColorArgb_ex_def EVE_CoDl_tag_def
  EVE_CoDl_colorRgb_ex_def EVE_CoDl_colorRgb_def EVE_CoDl_colorA_def EVE_CoDl_colorArgb_ex_def
  EVE_CoDl_bitmapHandle_def EVE_CoDl_cell_def EVE_CoDl_bitmapLayout_def EVE_CoDl_bitmapSize_def
  EVE_CoDl_alphaFunc_def EVE_CoDl_stencilFunc_def EVE_CoDl_blendFunc_def
  EVE_CoDl_blendFunc_default_def EVE_CoDl_stencilOp_def EVE_CoDl_pointSize_def
  EVE_CoDl_lineWidth_def EVE_CoDl_clearStencil_def EVE_CoDl_clearTag_def
  EVE_CoDl_stencilMask_def EVE_CoDl_tagMask_def EVE_CoDl_bitmapTransformA_def
  EVE_CoDl_bitmapTransformA_ex_def EVE_CoDl_bitmapTransformB_def
  EVE_CoDl_bitmapTransformB_ex_def EVE_CoDl_bitmapTransformC_def EVE_CoDl_bitmapTransformD_def
  EVE_CoDl_bitmapTransformD_ex_def EVE_CoDl_bitmapTransformE_def
  EVE_CoDl_bitmapTransformE_ex_def EVE_CoDl_bitmapTransformF_def EVE_CoDl_bitmapTransform_ex_def
  bitmapTransform_identity_body_def EVE_CoDl_bitmapTransform_identity_def EVE_CoDl_scissorXY_def
  EVE_CoDl_scissorSize_def EVE_CoDl_call_def EVE_CoDl_jump_def EVE_CoDl_begin_def
  EVE_CoDl_colorMask_def EVE_CoDl_end_def EVE_CoDl_return_def EVE_CoDl_macro_def
  EVE_CoDl_clear_def EVE_CoDl_vertexFormat_def EVE_CoDl_paletteSource_def
  EVE_CoDl_vertexTranslateX_def EVE_CoDl_vertexTranslateY_def EVE_CoDl_nop_def
  EVE_CoDl_vertex2f_4_def EVE_CoDl_vertex2f_2_def EVE_CoDl_vertex2f_0_def

lemma plain_index:
  assumes "f \<in> EVE_CoDl_plain cfg"
  shows "DlStateIndex (f phost) = DlStateIndex phost"
  using assms
  by (cases rule: EVE_CoDl_plain.cases) (simp_all add: EVE_CoDl_defs Let_def)

lemma plain_length:
  assumes "f \<in> EVE_CoDl_plain cfg"
  shows "length (DlState (f phost)) = length (DlState phost)"
  using assms
  by (cases rule: EVE_CoDl_plain.cases) (simp_all add: EVE_CoDl_defs Let_def)

lemma plain_other_slots:
  assumes "f \<in> EVE_CoDl_plain cfg" and "k \<noteq> unat (DlStateIndex phost)"
  shows "DlState (f phost) ! k = DlState phost ! k"
  using assms
  by (cases rule: EVE_CoDl_plain.cases) (simp_all add: EVE_CoDl_defs Let_def)

lemma plain_without_cache:
  assumes "f \<in> EVE_CoDl_plain cfg" and "\<not> EVE_DL_OPTIMIZE cfg" and "\<not> EVE_DL_CACHE_SCISSOR cfg"
  shows "DlState (f phost) = DlState phost"
  using assms
  by (cases rule: EVE_CoDl_plain.cases) (simp_all add: EVE_CoDl_defs Let_def)

lemma and_stack_mask: "(x :: int) AND (2 ^ n - 1) = x mod 2 ^ n"
  by (simp add: take_bit_eq_mod [symmetric] take_bit_eq_mask mask_eq_exp_minus_1)

lemma masked_index_bound:
  "unat (word_of_int ((x :: int) AND (2 ^ n - 1)) :: 8 word) < 2 ^ n"
proof -
  have le: "unat (word_of_int (x mod 2 ^ n) :: 8 word) \<le> nat (x mod 2 ^ n)"
    by (simp add: unat_eq_nat_uint uint_word_of_int nat_mono zmod_le_nonneg_dividend)
  have "x mod 2 ^ n < 2 ^ n" by simp
  then have "nat (x mod 2 ^ n) < nat (2 ^ n)" by (simp add: nat_less_iff)
  then have lt: "nat (x mod 2 ^ n) < (2 :: nat) ^ n" by (simp add: nat_power_eq)
  show ?thesis unfolding and_stack_mask using le lt by (rule le_less_trans)
qed

lemma masked_index_uint:
  assumes "n \<le> 8"
  shows "uint (word_of_int ((x :: int) AND (2 ^ n - 1)) :: 8 word) = x mod 2 ^ n"
proof -
  have a: "(2 :: int) ^ n \<le> 2 ^ 8" using assms by (intro power_increasing) simp_all
  have b: "0 \<le> x mod 2 ^ n" by simp
  have c: "x mod 2 ^ n < 2 ^ n" by simp
  have "x mod 2 ^ n < 2 ^ 8" using a c by (rule less_le_trans [rotated])
  with b have "x mod 2 ^ n mod 2 ^ 8 = x mod 2 ^ n" by (rule mod_pos_pos_trivial)
  then show ?thesis by (simp add: and_stack_mask uint_word_of_int)
qed

lemma shifted_index_differs:
  assumes "uint (idx :: 8 word) = (int i + int d) mod 2 ^ n" and "0 < d" and "d < 2 ^ n"
  shows "unat idx \<noteq> i"
proof
  assume "unat idx = i"
  then have "int i = uint idx" by (simp only: uint_nat)
  then have e: "int i = (int i + int d) mod 2 ^ n" using assms(1) by simp
  have "(int i + int d) mod 2 ^ n mod 2 ^ n = (int i + int d) mod 2 ^ n" by simp
  then have "int i mod 2 ^ n = (int i + int d) mod 2 ^ n" using e by metis
  then have "(2 :: int) ^ n dvd int i - (int i + int d)"
    by (simp only: mod_eq_dvd_iff)
  then have "(2 :: int) ^ n dvd int d" by simp
  then have "int (2 ^ n) dvd int d" by simp
  then have "(2 :: nat) ^ n dvd d" by (simp only: int_dvd_int_iff)
  then have "(2 :: nat) ^ n \<le> d" using assms(2) by (rule dvd_imp_le)
  then show False using assms(3) by simp
qed

lemma save_words: "CmdDl (EVE_CoDl_saveContext cfg phost) = CmdDl phost @ [SAVE_CONTEXT]"
  by (simp add: EVE_CoDl_saveContext_def Let_def)

lemma restore_words: "CmdDl (EVE_CoDl_restoreContext cfg phost) = CmdDl phost @ [RESTORE_CONTEXT]"
  by (simp add: EVE_CoDl_restoreContext_def Let_def)

lemma save_length: "length (DlState (EVE_CoDl_saveContext cfg phost)) = length (DlState phost)"
  by (simp add: EVE_CoDl_saveContext_def Let_def)

lemma restore_DlState: "DlState (EVE_CoDl_restoreContext cfg phost) = DlState phost"
  by (simp add: EVE_CoDl_restoreContext_def Let_def)

lemma save_index_bound:
  assumes "EVE_DL_OPTIMIZE cfg \<or> EVE_DL_CACHE_SCISSOR cfg"
  shows "unat (DlStateIndex (EVE_CoDl_saveContext cfg phost)) < EVE_DL_STATE_STACK_SIZE cfg"
  using assms masked_index_bound [of "uint (DlStateIndex phost) + 1" "EVE_DL_STATE_STACK_BITS cfg"]
  by (simp add: EVE_CoDl_saveContext_def Let_def EVE_DL_STATE_STACK_MASK_def
      EVE_DL_STATE_STACK_SIZE_def)

lemma restore_index_bound:
  assumes "EVE_DL_OPTIMIZE cfg \<or> EVE_DL_CACHE_SCISSOR cfg"
  shows "unat (DlStateIndex (EVE_CoDl_restoreContext cfg phost)) < EVE_DL_STATE_STACK_SIZE cfg"
  using assms masked_index_bound [of "uint (DlStateIndex phost) - 1" "EVE_DL_STATE_STACK_BITS cfg"]
  by (simp add: EVE_CoDl_restoreContext_def Let_def EVE_DL_STATE_STACK_MASK_def
      EVE_DL_STATE_STACK_SIZE_def)

lemma save_without_cache:
  assumes "\<not> EVE_DL_OPTIMIZE cfg" and "\<not> EVE_DL_CACHE_SCISSOR cfg"
  shows "DlStateIndex (EVE_CoDl_saveContext cfg phost) = DlStateIndex phost"
    and "DlState (EVE_CoDl_saveContext cfg phost) = DlState phost"
  using assms by (simp_all add: EVE_CoDl_saveContext_def Let_def)

lemma restore_without_cache:
  assumes "\<not> EVE_DL_OPTIMIZE cfg" and "\<not> EVE_DL_CACHE_SCISSOR cfg"
  shows "DlStateIndex (EVE_CoDl_restoreContext cfg phost) = DlStateIndex phost"
  using assms by (simp add: EVE_CoDl_restoreContext_def Let_def)

lemma save_index_step:
  assumes "EVE_DL_OPTIMIZE cfg \<or> EVE_DL_CACHE_SCISSOR cfg" and "EVE_DL_STATE_STACK_BITS cfg \<le> 8"
  shows "uint (DlStateIndex (EVE_CoDl_saveContext cfg phost)) =
           (uint (DlStateIndex phost) + 1) mod 2 ^ EVE_DL_STATE_STACK_BITS cfg"
  using assms(1) masked_index_uint [OF assms(2), of "uint (DlStateIndex phost) + 1"]
  by (simp add: EVE_CoDl_saveContext_def Let_def EVE_DL_STATE_STACK_MASK_def)

lemma restore_index_step:
  assumes "EVE_DL_OPTIMIZE cfg \<or> EVE_DL_CACHE_SCISSOR cfg" and "EVE_DL_STATE_STACK_BITS cfg \<le> 8"
  shows "uint (DlStateIndex (EVE_CoDl_restoreContext cfg phost)) =
           (uint (DlStateIndex phost) - 1) mod 2 ^ EVE_DL_STATE_STACK_BITS cfg"
  using assms(1) masked_index_uint [OF assms(2), of "uint (DlStateIndex phost) - 1"]
  by (simp add: EVE_CoDl_restoreContext_def Let_def EVE_DL_STATE_STACK_MASK_def)

lemma save_other_slots:
  assumes "k \<noteq> unat (DlStateIndex (EVE_CoDl_saveContext cfg phost))"
  shows "DlState (EVE_CoDl_saveContext cfg phost) ! k = DlState phost ! k"
  using assms by (simp add: EVE_CoDl_saveContext_def Let_def split: if_splits)

lemma ops_in_bounds:
  assumes "f \<in> EVE_CoDl_ops cfg" and "dl_state_in_bounds cfg phost"
  shows "dl_state_in_bounds cfg (f phost)"
proof -
  consider "f = EVE_CoDl_saveContext cfg" | "f = EVE_CoDl_restoreContext cfg"
    | "f \<in> EVE_CoDl_plain cfg"
    using assms(1) by (auto simp: EVE_CoDl_ops_def)
  then show ?thesis
  proof cases
    case 1
    show ?thesis
    proof (cases "EVE_DL_OPTIMIZE cfg \<or> EVE_DL_CACHE_SCISSOR cfg")
      case True
      then show ?thesis using assms(2) 1 save_index_bound [OF True, of phost]
        by (simp add: dl_state_in_bounds_def save_length)
    next
      case False
      then show ?thesis using assms(2) 1
        by (simp add: dl_state_in_bounds_def save_without_cache)
    qed
  next
    case 2
    show ?thesis
    proof (cases "EVE_DL_OPTIMIZE cfg \<or> EVE_DL_CACHE_SCISSOR cfg")
      case True
      then show ?thesis using assms(2) 2 restore_index_bound [OF True, of phost]
        by (simp add: dl_state_in_bounds_def restore_DlState)
    next
      case False
      then show ?thesis using assms(2) 2
        by (simp add: dl_state_in_bounds_def restore_DlState restore_without_cache)
    qed
  next
    case 3
    then show ?thesis using assms(2)
      by (simp add: dl_state_in_bounds_def plain_index plain_length)
  qed
qed

lemma run_ops_Nil [simp]: "run_ops [] phost = phost"
  by (simp add: run_ops_def)

lemma run_ops_Cons [simp]: "run_ops (f # fs) phost = run_ops fs (f phost)"
  by (simp add: run_ops_def)

lemma run_ops_append [simp]: "run_ops (fs @ gs) phost = run_ops gs (run_ops fs phost)"
  by (simp add: run_ops_def)

lemma run_ops_in_bounds:
  assumes "set fs \<subseteq> EVE_CoDl_ops cfg" and "dl_state_in_bounds cfg phost"
  shows "dl_state_in_bounds cfg (run_ops fs phost)"
  using assms
proof (induction fs arbitrary: phost)
  case Nil
  then show ?case by simp
next
  case (Cons f fs)
  then have "dl_state_in_bounds cfg (f phost)" by (simp add: ops_in_bounds)
  then show ?case using Cons by simp
qed

text \<open>
  Claim C10. Every sequence of calls of the header's functions keeps the array at its
  capacity and the index below it. The functions other than \<open>EVE_CoDl_saveContext\<close>
  and \<open>EVE_CoDl_restoreContext\<close> leave the index and the length of the array
  unchanged; these two keep the length, and from any index they produce a masked index,
  below the capacity, when a cache switch is on, and leave the index unchanged when both
  switches are off.
\<close>

theorem context_index_in_bounds:
  "(dl_state_in_bounds cfg phost \<and> set fs \<subseteq> EVE_CoDl_ops cfg \<longrightarrow>
      dl_state_in_bounds cfg (run_ops fs phost)) \<and>
   (f \<in> EVE_CoDl_plain cfg \<longrightarrow>
      DlStateIndex (f phost) = DlStateIndex phost \<and>
      length (DlState (f phost)) = length (DlState phost)) \<and>
   length (DlState (EVE_CoDl_saveContext cfg phost)) = length (DlState phost) \<and>
   length (DlState (EVE_CoDl_restoreContext cfg phost)) = length (DlState phost) \<and>
   (EVE_DL_OPTIMIZE cfg \<or> EVE_DL_CACHE_SCISSOR cfg \<longrightarrow>
      unat (DlStateIndex (EVE_CoDl_saveContext cfg phost)) < EVE_DL_STATE_STACK_SIZE cfg \<and>
      unat (DlStateIndex (EVE_CoDl_restoreContext cfg phost)) < EVE_DL_STATE_STACK_SIZE cfg) \<and>
   (\<not> EVE_DL_OPTIMIZE cfg \<and> \<not> EVE_DL_CACHE_SCISSOR cfg \<longrightarrow>
      DlStateIndex (EVE_CoDl_saveContext cfg phost) = DlStateIndex phost \<and>
      DlStateIndex (EVE_CoDl_restoreContext cfg phost) = DlStateIndex phost)"
  using run_ops_in_bounds [of fs cfg phost] plain_index [of f cfg phost]
    plain_length [of f cfg phost] save_length [of cfg phost] restore_DlState [of cfg phost]
    save_index_bound [of cfg phost] restore_index_bound [of cfg phost]
    save_without_cache(1) [of cfg phost] restore_without_cache [of cfg phost]
  by simp

text \<open>
  The theorem at the sample context, with five saves followed by six restores on a stack
  of four snapshots.
\<close>

theorem context_index_in_bounds_witness:
  "dl_state_in_bounds example_config example_context \<and>
   set (replicate 5 (EVE_CoDl_saveContext example_config) @
        replicate 6 (EVE_CoDl_restoreContext example_config)) \<subseteq> EVE_CoDl_ops example_config \<and>
   dl_state_in_bounds example_config
     (run_ops (replicate 5 (EVE_CoDl_saveContext example_config) @
               replicate 6 (EVE_CoDl_restoreContext example_config)) example_context) \<and>
   EVE_CoDl_colorA example_config 1 \<in> EVE_CoDl_plain example_config \<and>
   DlStateIndex (EVE_CoDl_colorA example_config 1 example_context) = 0 \<and>
   (EVE_DL_OPTIMIZE example_config \<or> EVE_DL_CACHE_SCISSOR example_config) \<and>
   EVE_DL_STATE_STACK_SIZE example_config = 4 \<and>
   unat (DlStateIndex (EVE_CoDl_saveContext example_config example_context)) < 4 \<and>
   unat (DlStateIndex (EVE_CoDl_restoreContext example_config example_context)) < 4"
proof -
  let ?fs = "replicate 5 (EVE_CoDl_saveContext example_config) @
             replicate 6 (EVE_CoDl_restoreContext example_config)"
  have m: "set ?fs \<subseteq> EVE_CoDl_ops example_config" by (auto simp: EVE_CoDl_ops_def)
  have p: "EVE_CoDl_colorA example_config 1 \<in> EVE_CoDl_plain example_config"
    by (rule op_colorA)
  have o: "EVE_DL_OPTIMIZE example_config \<or> EVE_DL_CACHE_SCISSOR example_config"
    by (simp add: example_config_def)
  have k: "EVE_DL_STATE_STACK_SIZE example_config = 4"
    by (simp add: EVE_DL_STATE_STACK_SIZE_def example_config_def)
  have z: "DlStateIndex example_context = 0" by (simp add: example_context_def)
  show ?thesis
    using context_index_in_bounds [of example_config example_context ?fs
        "EVE_CoDl_colorA example_config 1"] example_in_bounds m p o k z
    by simp
qed

subsection \<open>Save and restore round trip\<close>

lemma stack_depth_inv_plain:
  assumes "stack_depth_inv cfg i s0 d phost" and "0 < d" and "d < EVE_DL_STATE_STACK_SIZE cfg"
    and "f \<in> EVE_CoDl_plain cfg"
  shows "stack_depth_inv cfg i s0 d (f phost)"
proof -
  have "unat (DlStateIndex phost) \<noteq> i"
    using assms(1-3) by (intro shifted_index_differs [where d = d and n = "EVE_DL_STATE_STACK_BITS cfg"])
      (simp_all add: stack_depth_inv_def EVE_DL_STATE_STACK_SIZE_def)
  then have "DlState (f phost) ! i = DlState phost ! i"
    using assms(4) by (simp add: plain_other_slots)
  then show ?thesis
    using assms(1,4) by (simp add: stack_depth_inv_def plain_index plain_length)
qed

lemma stack_depth_inv_run_plain:
  assumes "set fs \<subseteq> EVE_CoDl_plain cfg" and "stack_depth_inv cfg i s0 d phost"
    and "0 < d" and "d < EVE_DL_STATE_STACK_SIZE cfg"
  shows "stack_depth_inv cfg i s0 d (run_ops fs phost)"
  using assms
proof (induction fs arbitrary: phost)
  case Nil
  then show ?case by simp
next
  case (Cons f fs)
  then have "stack_depth_inv cfg i s0 d (f phost)" by (simp add: stack_depth_inv_plain)
  then show ?case using Cons by simp
qed

lemma stack_depth_inv_save:
  assumes "stack_depth_inv cfg i s0 d phost" and "Suc d < EVE_DL_STATE_STACK_SIZE cfg"
    and "EVE_DL_OPTIMIZE cfg \<or> EVE_DL_CACHE_SCISSOR cfg" and "EVE_DL_STATE_STACK_BITS cfg \<le> 8"
  shows "stack_depth_inv cfg i s0 (Suc d) (EVE_CoDl_saveContext cfg phost)"
proof -
  let ?q = "EVE_CoDl_saveContext cfg phost"
  have "uint (DlStateIndex ?q) =
      ((int i + int d) mod 2 ^ EVE_DL_STATE_STACK_BITS cfg + 1) mod 2 ^ EVE_DL_STATE_STACK_BITS cfg"
    using assms(1) save_index_step [OF assms(3,4), of phost] by (simp add: stack_depth_inv_def)
  moreover have "((int i + int d) mod 2 ^ EVE_DL_STATE_STACK_BITS cfg + 1)
        mod 2 ^ EVE_DL_STATE_STACK_BITS cfg =
      (int i + int d + 1) mod 2 ^ EVE_DL_STATE_STACK_BITS cfg"
    by (rule mod_add_left_eq)
  moreover have "int i + int d + 1 = int i + int (Suc d)" by simp
  ultimately have idx: "uint (DlStateIndex ?q) =
      (int i + int (Suc d)) mod 2 ^ EVE_DL_STATE_STACK_BITS cfg"
    by (simp only:)
  have "unat (DlStateIndex ?q) \<noteq> i"
    using idx assms(2) by (intro shifted_index_differs [where d = "Suc d"
          and n = "EVE_DL_STATE_STACK_BITS cfg"]) (simp_all add: EVE_DL_STATE_STACK_SIZE_def)
  then have "DlState ?q ! i = DlState phost ! i" by (simp add: save_other_slots)
  then show ?thesis
    using assms(1) idx by (simp add: stack_depth_inv_def save_length)
qed

lemma stack_depth_inv_restore:
  assumes "stack_depth_inv cfg i s0 (Suc d) phost"
    and "EVE_DL_OPTIMIZE cfg \<or> EVE_DL_CACHE_SCISSOR cfg" and "EVE_DL_STATE_STACK_BITS cfg \<le> 8"
  shows "stack_depth_inv cfg i s0 d (EVE_CoDl_restoreContext cfg phost)"
proof -
  let ?q = "EVE_CoDl_restoreContext cfg phost"
  have "uint (DlStateIndex ?q) =
      ((int i + int (Suc d)) mod 2 ^ EVE_DL_STATE_STACK_BITS cfg - 1)
        mod 2 ^ EVE_DL_STATE_STACK_BITS cfg"
    using assms(1) restore_index_step [OF assms(2,3), of phost] by (simp add: stack_depth_inv_def)
  then have "uint (DlStateIndex ?q) =
      (int i + int (Suc d) - 1) mod 2 ^ EVE_DL_STATE_STACK_BITS cfg"
    by (simp only: mod_diff_left_eq)
  then have idx: "uint (DlStateIndex ?q) = (int i + int d) mod 2 ^ EVE_DL_STATE_STACK_BITS cfg"
    by simp
  show ?thesis
    using assms(1) idx by (simp add: stack_depth_inv_def restore_DlState)
qed

lemma saves_phase:
  assumes "stack_depth_inv cfg i s0 d phost"
    and "d + length ss < EVE_DL_STATE_STACK_SIZE cfg"
    and "\<forall>s \<in> set ss. set s \<subseteq> EVE_CoDl_plain cfg"
    and "EVE_DL_OPTIMIZE cfg \<or> EVE_DL_CACHE_SCISSOR cfg" and "EVE_DL_STATE_STACK_BITS cfg \<le> 8"
  shows "stack_depth_inv cfg i s0 (d + length ss)
           (run_ops (concat (map (\<lambda>s. EVE_CoDl_saveContext cfg # s) ss)) phost)"
  using assms(1-3)
proof (induction ss arbitrary: d phost)
  case Nil
  then show ?case by simp
next
  case (Cons s ss)
  have d: "Suc d < EVE_DL_STATE_STACK_SIZE cfg" using Cons.prems(2) by simp
  have "stack_depth_inv cfg i s0 (Suc d) (EVE_CoDl_saveContext cfg phost)"
    using Cons.prems(1) d assms(4,5) by (rule stack_depth_inv_save)
  then have "stack_depth_inv cfg i s0 (Suc d) (run_ops s (EVE_CoDl_saveContext cfg phost))"
    using Cons.prems(3) d by (intro stack_depth_inv_run_plain) simp_all
  then have "stack_depth_inv cfg i s0 (Suc d + length ss)
      (run_ops (concat (map (\<lambda>s. EVE_CoDl_saveContext cfg # s) ss))
        (run_ops s (EVE_CoDl_saveContext cfg phost)))"
    using Cons.prems(2,3) by (intro Cons.IH) simp_all
  then show ?case by simp
qed

lemma restores_phase:
  assumes "stack_depth_inv cfg i s0 (length rs) phost"
    and "length rs < EVE_DL_STATE_STACK_SIZE cfg"
    and "\<forall>r \<in> set rs. set r \<subseteq> EVE_CoDl_plain cfg"
    and "EVE_DL_OPTIMIZE cfg \<or> EVE_DL_CACHE_SCISSOR cfg" and "EVE_DL_STATE_STACK_BITS cfg \<le> 8"
  shows "stack_depth_inv cfg i s0 0
           (run_ops (concat (map (\<lambda>r. r @ [EVE_CoDl_restoreContext cfg]) rs)) phost)"
  using assms(1-3)
proof (induction rs arbitrary: phost)
  case Nil
  then show ?case by simp
next
  case (Cons r rs)
  have "stack_depth_inv cfg i s0 (Suc (length rs)) (run_ops r phost)"
    using Cons.prems by (intro stack_depth_inv_run_plain) simp_all
  then have "stack_depth_inv cfg i s0 (length rs) (EVE_CoDl_restoreContext cfg (run_ops r phost))"
    using assms(4,5) by (rule stack_depth_inv_restore)
  then have "stack_depth_inv cfg i s0 0
      (run_ops (concat (map (\<lambda>r. r @ [EVE_CoDl_restoreContext cfg]) rs))
        (EVE_CoDl_restoreContext cfg (run_ops r phost)))"
    using Cons.prems(2,3) by (intro Cons.IH) simp_all
  then show ?case by simp
qed

lemma index_mod_capacity:
  assumes "unat (w :: 8 word) < 2 ^ n"
  shows "uint w mod 2 ^ n = uint w"
proof -
  have "int (unat w) < int (2 ^ n)" using assms by (simp only: of_nat_less_iff)
  then have "uint w < 2 ^ n" by (simp only: uint_nat of_nat_power of_nat_numeral)
  then show ?thesis by (intro mod_pos_pos_trivial) simp_all
qed

lemma stack_depth_inv_start:
  assumes "dl_state_in_bounds cfg phost"
  shows "stack_depth_inv cfg (unat (DlStateIndex phost)) (EVE_DL_STATE phost) 0 phost"
proof -
  have "uint (DlStateIndex phost) mod 2 ^ EVE_DL_STATE_STACK_BITS cfg =
      uint (DlStateIndex phost)"
    using assms
    by (intro index_mod_capacity) (simp add: dl_state_in_bounds_def EVE_DL_STATE_STACK_SIZE_def)
  then show ?thesis
    using assms by (simp add: stack_depth_inv_def dl_state_in_bounds_def EVE_DL_STATE_def)
qed

lemma stack_depth_inv_end:
  assumes "stack_depth_inv cfg (unat (DlStateIndex phost)) s0 0 q"
    and "dl_state_in_bounds cfg phost"
  shows "DlStateIndex q = DlStateIndex phost \<and> EVE_DL_STATE q = s0"
proof -
  have "uint (DlStateIndex phost) mod 2 ^ EVE_DL_STATE_STACK_BITS cfg =
      uint (DlStateIndex phost)"
    using assms(2)
    by (intro index_mod_capacity) (simp add: dl_state_in_bounds_def EVE_DL_STATE_STACK_SIZE_def)
  then have "uint (DlStateIndex q) = uint (DlStateIndex phost)"
    using assms(1) by (simp add: stack_depth_inv_def)
  then have "DlStateIndex q = DlStateIndex phost" by (simp only: word_uint_eq_iff)
  then show ?thesis using assms(1) by (simp add: stack_depth_inv_def EVE_DL_STATE_def)
qed

lemma saves_then_restores_ops:
  assumes "\<forall>s \<in> set ss. set s \<subseteq> EVE_CoDl_plain cfg"
    and "\<forall>r \<in> set rs. set r \<subseteq> EVE_CoDl_plain cfg"
  shows "set (saves_then_restores cfg ss rs) \<subseteq> EVE_CoDl_ops cfg"
  using assms by (auto simp: saves_then_restores_def EVE_CoDl_ops_def)

lemma run_without_cache:
  assumes "set fs \<subseteq> EVE_CoDl_ops cfg"
    and "\<not> EVE_DL_OPTIMIZE cfg" and "\<not> EVE_DL_CACHE_SCISSOR cfg"
  shows "DlState (run_ops fs phost) = DlState phost \<and>
         DlStateIndex (run_ops fs phost) = DlStateIndex phost"
  using assms(1)
proof (induction fs arbitrary: phost)
  case Nil
  then show ?case by simp
next
  case (Cons f fs)
  have "f = EVE_CoDl_saveContext cfg \<or> f = EVE_CoDl_restoreContext cfg \<or> f \<in> EVE_CoDl_plain cfg"
    using Cons.prems by (auto simp: EVE_CoDl_ops_def)
  then have "DlState (f phost) = DlState phost \<and> DlStateIndex (f phost) = DlStateIndex phost"
    using assms(2,3)
    by (auto simp: save_without_cache restore_without_cache restore_DlState
        plain_without_cache plain_index)
  then show ?case using Cons by simp
qed

lemma no_primitive_plain:
  assumes "f \<in> EVE_CoDl_no_primitive cfg"
  shows "f \<in> EVE_CoDl_plain cfg"
  using assms
  by (cases rule: EVE_CoDl_no_primitive.cases) (simp_all add: EVE_CoDl_plain.intros)

lemma no_primitive_keeps:
  assumes "f \<in> EVE_CoDl_no_primitive cfg"
  shows "DlPrimitive (f phost) = DlPrimitive phost"
  using assms
  by (cases rule: EVE_CoDl_no_primitive.cases) (simp_all add: EVE_CoDl_defs Let_def)

lemma save_keeps_primitive:
  "DlPrimitive (EVE_CoDl_saveContext cfg phost) = DlPrimitive phost"
  by (simp add: EVE_CoDl_saveContext_def Let_def)

lemma restore_keeps_primitive:
  "DlPrimitive (EVE_CoDl_restoreContext cfg phost) = DlPrimitive phost"
  by (simp add: EVE_CoDl_restoreContext_def Let_def)

lemma step_keeps_primitive:
  assumes "f = EVE_CoDl_saveContext cfg \<or> f = EVE_CoDl_restoreContext cfg \<or>
           f \<in> EVE_CoDl_no_primitive cfg"
  shows "DlPrimitive (f phost) = DlPrimitive phost"
  using assms by (auto simp: save_keeps_primitive restore_keeps_primitive no_primitive_keeps)

lemma run_keeps_primitive:
  assumes "set fs \<subseteq> insert (EVE_CoDl_saveContext cfg)
             (insert (EVE_CoDl_restoreContext cfg) (EVE_CoDl_no_primitive cfg))"
  shows "DlPrimitive (run_ops fs phost) = DlPrimitive phost"
  using assms
proof (induction fs arbitrary: phost)
  case Nil
  show ?case by simp
next
  case (Cons f fs)
  from Cons.prems have "f = EVE_CoDl_saveContext cfg \<or> f = EVE_CoDl_restoreContext cfg \<or>
      f \<in> EVE_CoDl_no_primitive cfg"
    by auto
  then have first: "DlPrimitive (f phost) = DlPrimitive phost"
    by (rule step_keeps_primitive)
  from Cons.prems have "DlPrimitive (run_ops fs (f phost)) = DlPrimitive (f phost)"
    by (intro Cons.IH) simp
  with first show ?case by simp
qed

lemma saves_then_restores_no_primitive:
  assumes "\<forall>s \<in> set ss. set s \<subseteq> EVE_CoDl_no_primitive cfg"
    and "\<forall>r \<in> set rs. set r \<subseteq> EVE_CoDl_no_primitive cfg"
  shows "set (saves_then_restores cfg ss rs) \<subseteq> insert (EVE_CoDl_saveContext cfg)
             (insert (EVE_CoDl_restoreContext cfg) (EVE_CoDl_no_primitive cfg))"
  using assms by (auto simp: saves_then_restores_def)

text \<open>
  Claim C3, as the code has it. Let the index be in bounds and the capacity be at most
  256. After \<open>n\<close> saves and then \<open>n\<close> restores, with any calls of the other
  functions interleaved and \<open>n\<close> less than the capacity, the active snapshot and the
  index are what they were before the first save. The active primitive is kept outside
  the snapshots: a save and a restore leave it as it is, so it is what it was before the
  first save when no \<open>EVE_CoDl_begin\<close> or \<open>EVE_CoDl_end\<close> is interleaved, and is
  not restored otherwise. Every save appends exactly \<open>SAVE_CONTEXT\<close> and every
  restore exactly \<open>RESTORE_CONTEXT\<close>; when a cache switch is on, the index moves up,
  respectively down, by one modulo the capacity.
\<close>

theorem save_restore_round_trip:
  assumes "dl_state_in_bounds cfg phost"
    and "EVE_DL_STATE_STACK_BITS cfg \<le> 8"
    and "length ss = length rs"
    and "length ss < EVE_DL_STATE_STACK_SIZE cfg"
    and "\<forall>s \<in> set ss. set s \<subseteq> EVE_CoDl_plain cfg"
    and "\<forall>r \<in> set rs. set r \<subseteq> EVE_CoDl_plain cfg"
  shows
    "EVE_DL_STATE (run_ops (saves_then_restores cfg ss rs) phost) = EVE_DL_STATE phost \<and>
     DlStateIndex (run_ops (saves_then_restores cfg ss rs) phost) = DlStateIndex phost \<and>
     ((\<forall>s \<in> set ss. set s \<subseteq> EVE_CoDl_no_primitive cfg) \<and>
      (\<forall>r \<in> set rs. set r \<subseteq> EVE_CoDl_no_primitive cfg) \<longrightarrow>
        DlPrimitive (run_ops (saves_then_restores cfg ss rs) phost) = DlPrimitive phost) \<and>
     DlPrimitive (EVE_CoDl_saveContext cfg q) = DlPrimitive q \<and>
     DlPrimitive (EVE_CoDl_restoreContext cfg q) = DlPrimitive q \<and>
     CmdDl (EVE_CoDl_saveContext cfg q) = CmdDl q @ [SAVE_CONTEXT] \<and>
     CmdDl (EVE_CoDl_restoreContext cfg q) = CmdDl q @ [RESTORE_CONTEXT] \<and>
     (EVE_DL_OPTIMIZE cfg \<or> EVE_DL_CACHE_SCISSOR cfg \<longrightarrow>
        uint (DlStateIndex (EVE_CoDl_saveContext cfg q)) =
          (uint (DlStateIndex q) + 1) mod 2 ^ EVE_DL_STATE_STACK_BITS cfg \<and>
        uint (DlStateIndex (EVE_CoDl_restoreContext cfg q)) =
          (uint (DlStateIndex q) - 1) mod 2 ^ EVE_DL_STATE_STACK_BITS cfg)"
proof -
  let ?end = "run_ops (saves_then_restores cfg ss rs) phost"
  have trip: "DlStateIndex ?end = DlStateIndex phost \<and> EVE_DL_STATE ?end = EVE_DL_STATE phost"
  proof (cases "EVE_DL_OPTIMIZE cfg \<or> EVE_DL_CACHE_SCISSOR cfg")
    case True
    let ?i = "unat (DlStateIndex phost)"
    let ?mid = "run_ops (concat (map (\<lambda>s. EVE_CoDl_saveContext cfg # s) ss)) phost"
    have "stack_depth_inv cfg ?i (EVE_DL_STATE phost) 0 phost"
      using assms(1) by (rule stack_depth_inv_start)
    then have "stack_depth_inv cfg ?i (EVE_DL_STATE phost) (0 + length ss) ?mid"
      using assms(4,5) True assms(2) by (intro saves_phase) simp_all
    then have "stack_depth_inv cfg ?i (EVE_DL_STATE phost) (length rs) ?mid"
      using assms(3) by simp
    then have "stack_depth_inv cfg ?i (EVE_DL_STATE phost) 0
        (run_ops (concat (map (\<lambda>r. r @ [EVE_CoDl_restoreContext cfg]) rs)) ?mid)"
      using assms(3,4,6) True assms(2) by (intro restores_phase) simp_all
    then have "stack_depth_inv cfg ?i (EVE_DL_STATE phost) 0 ?end"
      by (simp add: saves_then_restores_def)
    then show ?thesis using assms(1) by (rule stack_depth_inv_end)
  next
    case False
    from False have no: "\<not> EVE_DL_OPTIMIZE cfg" and nc: "\<not> EVE_DL_CACHE_SCISSOR cfg"
      by simp_all
    have "set (saves_then_restores cfg ss rs) \<subseteq> EVE_CoDl_ops cfg"
      using assms(5,6) by (rule saves_then_restores_ops)
    then have "DlState ?end = DlState phost \<and> DlStateIndex ?end = DlStateIndex phost"
      using no nc by (rule run_without_cache)
    then show ?thesis by (simp add: EVE_DL_STATE_def)
  qed
  have step: "EVE_DL_OPTIMIZE cfg \<or> EVE_DL_CACHE_SCISSOR cfg \<longrightarrow>
        uint (DlStateIndex (EVE_CoDl_saveContext cfg q)) =
          (uint (DlStateIndex q) + 1) mod 2 ^ EVE_DL_STATE_STACK_BITS cfg \<and>
        uint (DlStateIndex (EVE_CoDl_restoreContext cfg q)) =
          (uint (DlStateIndex q) - 1) mod 2 ^ EVE_DL_STATE_STACK_BITS cfg"
    using save_index_step [OF _ assms(2), of q] restore_index_step [OF _ assms(2), of q]
    by blast
  have prim: "(\<forall>s \<in> set ss. set s \<subseteq> EVE_CoDl_no_primitive cfg) \<and>
      (\<forall>r \<in> set rs. set r \<subseteq> EVE_CoDl_no_primitive cfg) \<longrightarrow>
        DlPrimitive ?end = DlPrimitive phost"
  proof
    assume "(\<forall>s \<in> set ss. set s \<subseteq> EVE_CoDl_no_primitive cfg) \<and>
      (\<forall>r \<in> set rs. set r \<subseteq> EVE_CoDl_no_primitive cfg)"
    then have "set (saves_then_restores cfg ss rs) \<subseteq> insert (EVE_CoDl_saveContext cfg)
             (insert (EVE_CoDl_restoreContext cfg) (EVE_CoDl_no_primitive cfg))"
      by (intro saves_then_restores_no_primitive) simp_all
    then show "DlPrimitive ?end = DlPrimitive phost" by (rule run_keeps_primitive)
  qed
  show ?thesis
    using trip prim step save_words [of cfg q] restore_words [of cfg q]
      save_keeps_primitive [of cfg q] restore_keeps_primitive [of cfg q]
    by blast
qed

text \<open>
  The theorem at the sample context: three saves and three restores on a stack of four
  snapshots, with setters in between, also from a context with primitive 2 active.
\<close>

theorem save_restore_round_trip_witness:
  "dl_state_in_bounds example_config example_context \<and>
   EVE_DL_STATE_STACK_BITS example_config \<le> 8 \<and>
   length [[EVE_CoDl_colorA example_config 1], [EVE_CoDl_cell example_config 2], []] =
     length [[], [EVE_CoDl_pointSize example_config 5], [] :: (EVE_HalContext \<Rightarrow> EVE_HalContext) list] \<and>
   3 < EVE_DL_STATE_STACK_SIZE example_config \<and>
   (EVE_DL_OPTIMIZE example_config \<or> EVE_DL_CACHE_SCISSOR example_config) \<and>
   EVE_DL_STATE (run_ops (saves_then_restores example_config
       [[EVE_CoDl_colorA example_config 1], [EVE_CoDl_cell example_config 2], []]
       [[], [EVE_CoDl_pointSize example_config 5], []]) example_context) = example_state \<and>
   DlStateIndex (run_ops (saves_then_restores example_config
       [[EVE_CoDl_colorA example_config 1], [EVE_CoDl_cell example_config 2], []]
       [[], [EVE_CoDl_pointSize example_config 5], []]) example_context) = 0 \<and>
   DlPrimitive (run_ops (saves_then_restores example_config
       [[EVE_CoDl_colorA example_config 1], [EVE_CoDl_cell example_config 2], []]
       [[], [EVE_CoDl_pointSize example_config 5], []])
       (example_context\<lparr>DlPrimitive := 2\<rparr>)) = 2 \<and>
   CmdDl (EVE_CoDl_saveContext example_config example_context) = [SAVE_CONTEXT] \<and>
   CmdDl (EVE_CoDl_restoreContext example_config example_context) = [RESTORE_CONTEXT] \<and>
   uint (DlStateIndex (EVE_CoDl_saveContext example_config example_context)) = 1 \<and>
   uint (DlStateIndex (EVE_CoDl_restoreContext example_config example_context)) = 3"
proof -
  let ?ss = "[[EVE_CoDl_colorA example_config 1], [EVE_CoDl_cell example_config 2], []]"
  let ?rs = "[[], [EVE_CoDl_pointSize example_config 5],
              [] :: (EVE_HalContext \<Rightarrow> EVE_HalContext) list]"
  have n: "EVE_DL_STATE_STACK_BITS example_config \<le> 8" by (simp add: example_config_def)
  have l: "length ?ss = length ?rs" by simp
  have k: "length ?ss < EVE_DL_STATE_STACK_SIZE example_config"
    by (simp add: EVE_DL_STATE_STACK_SIZE_def example_config_def)
  have ps: "\<forall>s \<in> set ?ss. set s \<subseteq> EVE_CoDl_plain example_config"
    by (simp add: op_colorA op_cell)
  have pr: "\<forall>r \<in> set ?rs. set r \<subseteq> EVE_CoDl_plain example_config"
    by (simp add: op_pointSize)
  have o: "EVE_DL_OPTIMIZE example_config \<or> EVE_DL_CACHE_SCISSOR example_config"
    by (simp add: example_config_def)
  have b: "EVE_DL_STATE_STACK_BITS example_config = 2" by (simp add: example_config_def)
  have z: "DlStateIndex example_context = 0" "CmdDl example_context = []"
    by (simp_all add: example_context_def)
  have ns: "\<forall>s \<in> set ?ss. set s \<subseteq> EVE_CoDl_no_primitive example_config"
    by (simp add: np_colorA np_cell)
  have nr: "\<forall>r \<in> set ?rs. set r \<subseteq> EVE_CoDl_no_primitive example_config"
    by (simp add: np_pointSize)
  have b2: "dl_state_in_bounds example_config (example_context\<lparr>DlPrimitive := 2\<rparr>)"
    using example_in_bounds by (simp add: dl_state_in_bounds_def)
  have w2: "DlPrimitive (run_ops (saves_then_restores example_config ?ss ?rs)
       (example_context\<lparr>DlPrimitive := 2\<rparr>)) = 2"
    using save_restore_round_trip [OF b2 n l k ps pr, THEN conjunct2, THEN conjunct2,
        THEN conjunct1] ns nr by simp
  show ?thesis
    using save_restore_round_trip [OF example_in_bounds n l k ps pr, of example_context]
      example_in_bounds n k o b z w2
    by (simp add: example_state_simps)
qed

text \<open>
  Claim C3 as stated fails in two ways. At the full depth: with four saves on a stack of
  four snapshots and one \<open>colorA(1)\<close> after the first save, the fourth save overwrites
  the original snapshot, and after four restores the active alpha is 1, not \<open>0xFF\<close>.
  For the active primitive: after a save, \<open>begin(2)\<close> and a restore, the active
  primitive is 2, not none as before the save.
\<close>

theorem save_restore_full_depth_counterexample:
  "length [[EVE_CoDl_colorA example_config 1], [], [], []] = EVE_DL_STATE_STACK_SIZE example_config \<and>
   set [EVE_CoDl_colorA example_config 1] \<subseteq> EVE_CoDl_plain example_config \<and>
   ColorA (EVE_DL_STATE example_context) = 0xFF \<and>
   ColorA (EVE_DL_STATE (run_ops (saves_then_restores example_config
       [[EVE_CoDl_colorA example_config 1], [], [], []] [[], [], [], []]) example_context)) = 1 \<and>
   length [[EVE_CoDl_begin example_config 2]] < EVE_DL_STATE_STACK_SIZE example_config \<and>
   set [EVE_CoDl_begin example_config 2] \<subseteq> EVE_CoDl_plain example_config \<and>
   DlPrimitive example_context = 0 \<and>
   DlPrimitive (run_ops (saves_then_restores example_config
       [[EVE_CoDl_begin example_config 2]] [[]]) example_context) = 2"
proof -
  have k: "EVE_DL_STATE_STACK_SIZE example_config = 4"
    by (simp add: EVE_DL_STATE_STACK_SIZE_def example_config_def)
  have m: "EVE_DL_STATE_STACK_MASK example_config = 3"
    by (simp add: EVE_DL_STATE_STACK_MASK_def example_config_def)
  have o: "EVE_DL_OPTIMIZE example_config" by (simp add: example_config_def)
  have a: "ColorA example_state = 0xFF" by (simp add: example_state_def)
  have r: "ColorA (EVE_DL_STATE (run_ops (saves_then_restores example_config
       [[EVE_CoDl_colorA example_config 1], [], [], []] [[], [], [], []]) example_context)) = 1"
    by (simp add: saves_then_restores_def EVE_CoDl_saveContext_def EVE_CoDl_restoreContext_def
        EVE_CoDl_colorA_def EVE_DL_STATE_def EVE_DL_STATE_set_def EVE_CoCmd_dl_def Let_def
        o m a example_context_def)
  have z: "DlPrimitive example_context = 0" by (simp add: example_context_def)
  have p: "DlPrimitive (run_ops (saves_then_restores example_config
       [[EVE_CoDl_begin example_config 2]] [[]]) example_context) = 2"
    by (simp add: saves_then_restores_def EVE_CoDl_saveContext_def EVE_CoDl_restoreContext_def
        EVE_CoDl_begin_def Let_def o z example_config_def)
  show ?thesis using k a r z p by (simp add: op_colorA op_begin example_state_simps)
qed

end
